theory Spec2Isabelle
  imports Complex_Main "HOL-Library.AList" "HOL-Library.Sublist" "HOL-Library.Multiset"
begin

section \<open>Conventions of the embedding\<close>

text \<open>
  The grocery manager is Python. A \<open>float\<close> is embedded as the \<open>real\<close> it stands
  for: comparisons are exact, and every arithmetic operation on floats rounds its exact
  result to binary64 (section on float arithmetic below). Infinities and NaN are outside
  the model. A string is a \<open>char list\<close> of code points below 256. A Python \<open>dict\<close> is
  an association list in insertion order; \<open>d[k] = v\<close> is \<open>AList.update k v d\<close> (an
  existing key keeps its position, a new key goes last) and \<open>d.get(k)\<close> is
  \<open>map_of d k\<close>. An awaited call to an external collaborator (a platform adapter, the
  page fetcher) is a function whose value is \<open>Inl message\<close> when the call raises and
  \<open>Inr result\<close> when it returns. The database's \<open>ORDER BY\<close> is a parameter.
  Timestamps are seconds as \<open>int\<close>.
\<close>

type_synonym platform = string
type_synonym timestamp = int

subsection \<open>Python truthiness of an optional float\<close>

text \<open>\<open>x.get("price")\<close> used as a condition: \<open>None\<close> and \<open>0.0\<close> are both false.\<close>

definition truthy :: "real option \<Rightarrow> bool" where
  "truthy p = (case p of None \<Rightarrow> False | Some x \<Rightarrow> x \<noteq> 0)"

subsection \<open>Float arithmetic\<close>

text \<open>
  A binary64 value is \<open>m * 2 ^ e\<close> with an integer \<open>m\<close> below \<open>2 ^ 53\<close> in
  magnitude and \<open>e\<close> from \<open>-1074\<close> to \<open>971\<close>. \<open>round64\<close> rounds a real to the
  nearest such value, ties to the even \<open>m\<close>, as the hardware does for the result of
  every operation: the magnitude is scaled into \<open>[2 ^ 52, 2 ^ 53)\<close>, or as far as the
  smallest exponent allows, and rounded to an integer there. A result beyond the largest
  binary64 value, where Python has \<open>inf\<close>, stays a real of that size.
\<close>

definition round_half_even :: "real \<Rightarrow> int" where
  "round_half_even x =
     (let f = \<lfloor>x\<rfloor>; d = x - of_int f in
      if d < 1 / 2 then f
      else if 1 / 2 < d then f + 1
      else if even f then f else f + 1)"

function scale_up :: "real \<Rightarrow> int \<Rightarrow> real \<times> int" where
  "scale_up m e = (if m < 2 ^ 52 \<and> - 1074 < e then scale_up (2 * m) (e - 1) else (m, e))"
  by pat_completeness auto
termination
  by (relation "measure (\<lambda>(m, e). nat (e + 1074))") auto

function scale_down :: "real \<Rightarrow> int \<Rightarrow> real \<times> int" where
  "scale_down m e = (if 2 ^ 53 \<le> m \<and> e < 971 then scale_down (m / 2) (e + 1) else (m, e))"
  by pat_completeness auto
termination
  by (relation "measure (\<lambda>(m, e). nat (971 - e))") auto

declare scale_up.simps [simp del] scale_down.simps [simp del]

definition pow2 :: "int \<Rightarrow> real" where
  "pow2 e = (if 0 \<le> e then 2 ^ nat e else 1 / 2 ^ nat (- e))"

definition round64 :: "real \<Rightarrow> real" where
  "round64 x =
     (if x = 0 then 0
      else
        (let (m, e) = (if \<bar>x\<bar> < 2 ^ 52 then scale_up \<bar>x\<bar> 0 else scale_down \<bar>x\<bar> 0)
         in sgn x * of_int (round_half_even m) * pow2 e))"

text \<open>
  A float literal and \<open>float(text)\<close> give the binary64 value nearest to the decimal;
  \<open>a - b\<close>, \<open>a * b\<close> and \<open>a / b\<close> on floats give the one nearest to the exact
  result. Division by zero raises and is handled where it can occur.
\<close>

definition py_float :: "real \<Rightarrow> real" where
  "py_float x = round64 x"

definition fsub :: "real \<Rightarrow> real \<Rightarrow> real" where
  "fsub a b = round64 (a - b)"

definition fmul :: "real \<Rightarrow> real \<Rightarrow> real" where
  "fmul a b = round64 (a * b)"

definition fdiv :: "real \<Rightarrow> real \<Rightarrow> real" where
  "fdiv a b = round64 (a / b)"

subsection \<open>String helpers: \<open>str.lower\<close>, \<open>str.strip\<close>, \<open>in\<close>\<close>

text \<open>
  \<open>str.lower\<close> on the code points below 256: the letters \<open>A\<close> to \<open>Z\<close> and the
  accented capitals \<open>0xC0\<close> to \<open>0xDE\<close> without the multiplication sign \<open>0xD7\<close> move up
  by \<open>0x20\<close>. \<open>str.isspace\<close>, which \<open>str.strip\<close> and the \<open>\s\<close> of a
  regular expression share, holds of twelve of them.
\<close>

definition upper_letters :: string where
  "upper_letters =
     ''ABCDEFGHIJKLMNOPQRSTUVWXYZ'' @
     [CHR 0xC0, CHR 0xC1, CHR 0xC2, CHR 0xC3, CHR 0xC4, CHR 0xC5, CHR 0xC6, CHR 0xC7,
      CHR 0xC8, CHR 0xC9, CHR 0xCA, CHR 0xCB, CHR 0xCC, CHR 0xCD, CHR 0xCE, CHR 0xCF,
      CHR 0xD0, CHR 0xD1, CHR 0xD2, CHR 0xD3, CHR 0xD4, CHR 0xD5, CHR 0xD6,
      CHR 0xD8, CHR 0xD9, CHR 0xDA, CHR 0xDB, CHR 0xDC, CHR 0xDD, CHR 0xDE]"

definition lower_letters :: string where
  "lower_letters =
     ''abcdefghijklmnopqrstuvwxyz'' @
     [CHR 0xE0, CHR 0xE1, CHR 0xE2, CHR 0xE3, CHR 0xE4, CHR 0xE5, CHR 0xE6, CHR 0xE7,
      CHR 0xE8, CHR 0xE9, CHR 0xEA, CHR 0xEB, CHR 0xEC, CHR 0xED, CHR 0xEE, CHR 0xEF,
      CHR 0xF0, CHR 0xF1, CHR 0xF2, CHR 0xF3, CHR 0xF4, CHR 0xF5, CHR 0xF6,
      CHR 0xF8, CHR 0xF9, CHR 0xFA, CHR 0xFB, CHR 0xFC, CHR 0xFD, CHR 0xFE]"

definition lower_char :: "char \<Rightarrow> char" where
  "lower_char c =
     (case map_of (zip upper_letters lower_letters) c of
        Some d \<Rightarrow> d
      | None \<Rightarrow> c)"

definition lower :: "string \<Rightarrow> string" where
  "lower s = map lower_char s"

definition is_space :: "char \<Rightarrow> bool" where
  "is_space c \<longleftrightarrow>
     c \<in> set [CHR 0x09, CHR 0x0A, CHR 0x0B, CHR 0x0C, CHR 0x0D,
               CHR 0x1C, CHR 0x1D, CHR 0x1E, CHR 0x1F, CHR 0x20, CHR 0x85, CHR 0xA0]"

definition strip :: "string \<Rightarrow> string" where
  "strip s = rev (dropWhile is_space (rev (dropWhile is_space s)))"

text \<open>\<open>a in b\<close> on strings: \<open>a\<close> occurs in \<open>b\<close> as a contiguous block.\<close>

fun contains :: "string \<Rightarrow> string \<Rightarrow> bool" where
  "contains [] a = (a = [])"
| "contains (c # cs) a = (prefix a (c # cs) \<or> contains cs a)"

section \<open>Adapter data (\<open>adapters/base.py\<close>)\<close>

text \<open>
  The \<open>Product\<close> dataclass, with the fields the services read. The remaining fields
  (\<open>original_price\<close>, \<open>image_url\<close>, \<open>rating\<close>, ...) are carried along by the
  source and read by none of the functions embedded here.
\<close>

record Product =
  product_id :: string
  name :: string
  price :: real
  unit_price :: "real option"
  unit_size :: "string option"
  in_stock :: bool
  url :: string

text \<open>
  A platform adapter, seen through \<open>search_products(query, limit=limit)\<close>: the call
  raises, or returns a \<open>SearchResult\<close> whose \<open>products\<close> are what the services use.
\<close>

type_synonym adapter = "string \<Rightarrow> int \<Rightarrow> string + Product list"

section \<open>Unit price at ingestion (\<open>FairPriceAdapter._calculate_unit_price\<close>)\<close>

datatype py_error = ZeroDivisionError

text \<open>Python's float division raises on a zero divisor.\<close>

definition py_div :: "real \<Rightarrow> real \<Rightarrow> py_error + real" where
  "py_div a b = (if b = 0 then Inl ZeroDivisionError else Inr (fdiv a b))"

definition is_digit :: "char \<Rightarrow> bool" where
  "is_digit c \<longleftrightarrow> c \<in> set ''0123456789''"

definition digit_val :: "char \<Rightarrow> nat" where
  "digit_val c =
     (case map_of (zip ''0123456789'' [0, 1, 2, 3, 4, 5, 6, 7, 8, 9]) c of
        Some d \<Rightarrow> d
      | None \<Rightarrow> 0)"

definition digits_val :: "string \<Rightarrow> nat" where
  "digits_val ds = foldl (\<lambda>n c. 10 * n + digit_val c) 0 ds"

text \<open>The number that the digits \<open>ds\<close>, a dot and the digits \<open>fs\<close> write.\<close>

definition decimal_value :: "string \<Rightarrow> string \<Rightarrow> real" where
  "decimal_value ds fs = real (digits_val ds) + real (digits_val fs) / 10 ^ length fs"

text \<open>
  The regular expression is
  \<^verbatim>\<open>(\d+(?:\.\d+)?)\s*(kg|g|l|ml|pcs?|pieces?|pack|each)\<close>, applied with \<open>re.match\<close>:
  anchored at the start of the text, not at its end. \<open>match_number\<close> is the first
  group followed by \<open>float(...)\<close>: a run of digits, then a dot and a second run of digits
  when both are there. The quantifiers are greedy and giving a digit back never helps,
  since a unit starts with a letter.
\<close>

definition match_number :: "string \<Rightarrow> (real \<times> string) option" where
  "match_number s =
     (let ds = takeWhile is_digit s; r = dropWhile is_digit s in
      if ds = [] then None
      else
        (case r of
           [] \<Rightarrow> Some (py_float (decimal_value ds []), [])
         | c # r' \<Rightarrow>
             (let fs = takeWhile is_digit r' in
              if c = CHR ''.'' \<and> fs \<noteq> []
              then Some (py_float (decimal_value ds fs), dropWhile is_digit r')
              else Some (py_float (decimal_value ds []), r))))"

text \<open>
  The second group: the alternatives are tried in the order of the pattern, and the
  optional \<open>s\<close> of \<open>pcs?\<close> and \<open>pieces?\<close> is taken when it is there.
\<close>

definition match_unit :: "string \<Rightarrow> string option" where
  "match_unit s =
     (if prefix ''kg'' s then Some ''kg''
      else if prefix ''g'' s then Some ''g''
      else if prefix ''l'' s then Some ''l''
      else if prefix ''ml'' s then Some ''ml''
      else if prefix ''pcs'' s then Some ''pcs''
      else if prefix ''pc'' s then Some ''pc''
      else if prefix ''pieces'' s then Some ''pieces''
      else if prefix ''piece'' s then Some ''piece''
      else if prefix ''pack'' s then Some ''pack''
      else if prefix ''each'' s then Some ''each''
      else None)"

definition match_size :: "string \<Rightarrow> (real \<times> string) option" where
  "match_size s =
     (case match_number s of
        None \<Rightarrow> None
      | Some (quantity, r) \<Rightarrow>
          (case match_unit (dropWhile is_space r) of
             None \<Rightarrow> None
           | Some unit \<Rightarrow> Some (quantity, unit)))"

definition calculate_unit_price :: "real \<Rightarrow> string \<Rightarrow> py_error + real option" where
  "calculate_unit_price price0 size_str =
     (case match_size (strip (lower size_str)) of
        None \<Rightarrow> Inr None
      | Some (quantity, unit) \<Rightarrow>
          if quantity = 0 then Inr None
          else if unit = ''g'' then
            (case py_div price0 quantity of Inl e \<Rightarrow> Inl e | Inr q \<Rightarrow> Inr (Some (fmul q 1000)))
          else if unit = ''kg'' then
            (case py_div price0 quantity of Inl e \<Rightarrow> Inl e | Inr q \<Rightarrow> Inr (Some q))
          else if unit = ''ml'' then
            (case py_div price0 quantity of Inl e \<Rightarrow> Inl e | Inr q \<Rightarrow> Inr (Some (fmul q 1000)))
          else if unit = ''l'' then
            (case py_div price0 quantity of Inl e \<Rightarrow> Inl e | Inr q \<Rightarrow> Inr (Some q))
          else if unit \<in> set [''pc'', ''pcs'', ''piece'', ''pieces'', ''pack'', ''each''] then
            (case py_div price0 quantity of Inl e \<Rightarrow> Inl e | Inr q \<Rightarrow> Inr (Some q))
          else Inr None)"

text \<open>
  The shape of a size text the pattern accepts, in the words of the pattern: an optional
  fraction is a dot and at least one digit.
\<close>

definition is_fraction :: "string \<Rightarrow> bool" where
  "is_fraction fr =
     (case fr of [] \<Rightarrow> True
      | c # fs \<Rightarrow> c = CHR ''.'' \<and> fs \<noteq> [] \<and> list_all is_digit fs)"

definition unit_tokens :: "string list" where
  "unit_tokens =
     [''kg'', ''g'', ''l'', ''ml'', ''pcs'', ''pc'', ''pieces'', ''piece'', ''pack'', ''each'']"


section \<open>Aggregation (\<open>services/price_service.py\<close>)\<close>

definition search_all_platforms ::
  "(platform \<times> adapter) list \<Rightarrow> string \<Rightarrow> int \<Rightarrow> (platform \<times> Product list) list" where
  "search_all_platforms adapters query limit =
     fold (\<lambda>(platform_name, adapter) results.
             case adapter query limit of
               Inr products \<Rightarrow> AList.update platform_name products results
             | Inl e \<Rightarrow> AList.update platform_name [] results)
          adapters []"

text \<open>The dictionary \<open>compare_prices\<close> builds for each product.\<close>

record comparison =
  c_platform :: platform
  c_product :: Product
  c_price :: real
  c_unit_price :: "real option"

definition flatten :: "(platform \<times> Product list) list \<Rightarrow> comparison list" where
  "flatten all_results =
     concat (map (\<lambda>(platform, products).
                    map (\<lambda>product. \<lparr>c_platform = platform, c_product = product,
                                      c_price = price product,
                                      c_unit_price = unit_price product\<rparr>) products)
                 all_results)"

text \<open>The sort key \<open>x.get("unit_price") or x["price"]\<close>.\<close>

definition sort_key_of :: "comparison \<Rightarrow> real" where
  "sort_key_of x = (if truthy (c_unit_price x) then the (c_unit_price x) else c_price x)"

text \<open>\<open>list.sort(key=...)\<close> is a stable ascending sort, as \<open>sort_key\<close> is.\<close>

definition compare_prices :: "(platform \<times> adapter) list \<Rightarrow> string \<Rightarrow> int \<Rightarrow> comparison list" where
  "compare_prices adapters query limit =
     sort_key sort_key_of (flatten (search_all_platforms adapters query limit))"

text \<open>
  The order the specification describes, for comparison with the one the code computes:
  every record with a unit price before every record without one, the first segment
  ascending by unit price and the second ascending by raw price.
\<close>

definition has_unit_price :: "comparison \<Rightarrow> bool" where
  "has_unit_price x = (c_unit_price x \<noteq> None)"

definition two_segment_order :: "comparison list \<Rightarrow> bool" where
  "two_segment_order xs =
     (let us = takeWhile has_unit_price xs; rs = dropWhile has_unit_price xs in
      list_all (\<lambda>x. \<not> has_unit_price x) rs \<and>
      sorted (map (\<lambda>x. the (c_unit_price x)) us) \<and>
      sorted (map c_price rs))"

section \<open>Price history and drop alerts (\<open>services/price_service.py\<close>)\<close>

text \<open>
  The rows of \<open>price_records\<close> and \<open>inventory_items\<close>, with the columns the two
  queries read. The table is a list of rows; \<open>now\<close> is the value of
  \<open>datetime.utcnow()\<close>.
\<close>

record PriceRecord =
  r_inventory_item_id :: "int option"
  r_platform :: platform
  r_price :: real
  r_product_url :: string
  r_scraped_at :: timestamp

record InventoryItem =
  i_id :: int
  i_is_active :: int

definition days_seconds :: "int \<Rightarrow> int" where
  "days_seconds days = days * 86400"

text \<open>
  \<open>ORDER BY scraped_at DESC\<close> is the database's: \<open>order_by\<close> stands for what it does
  to the selected rows. SQL promises a rearrangement of the rows that is descending in
  \<open>scraped_at\<close> and leaves the order of rows with equal timestamps to the engine.
\<close>

type_synonym ordering = "PriceRecord list \<Rightarrow> PriceRecord list"

definition orders_by_scraped_at_desc :: "ordering \<Rightarrow> bool" where
  "orders_by_scraped_at_desc order_by \<longleftrightarrow>
     (\<forall>rows. mset (order_by rows) = mset rows \<and>
             sorted (map (\<lambda>r. - r_scraped_at r) (order_by rows)))"

text \<open>
  One such engine: among rows with equal timestamps the row inserted later comes first.
\<close>

definition newest_first :: ordering where
  "newest_first rows = sort_key (\<lambda>r. - r_scraped_at r) (rev rows)"

text \<open>
  \<open>get_price_history\<close>: the rows of the item scraped at or after the cutoff, of one
  platform when a non-empty platform is given, in the order the database returns them.
\<close>

definition get_price_history ::
  "ordering \<Rightarrow> PriceRecord list \<Rightarrow> int \<Rightarrow> platform option \<Rightarrow> int \<Rightarrow> timestamp \<Rightarrow>
   PriceRecord list" where
  "get_price_history order_by records inventory_item_id platform0 days now =
     (let cutoff = now - days_seconds days;
          q = filter (\<lambda>r. r_inventory_item_id r = Some inventory_item_id \<and>
                           r_scraped_at r \<ge> cutoff) records;
          q' = (case platform0 of
                  None \<Rightarrow> q
                | Some pl \<Rightarrow> if pl = [] then q else filter (\<lambda>r. r_platform r = pl) q)
      in order_by q')"

record price_alert =
  pa_item :: InventoryItem
  pa_platform :: platform
  pa_current_price :: real
  pa_previous_price :: real
  pa_change_percent :: real
  pa_url :: string

text \<open>
  The body of the loop of \<open>get_price_alerts\<close> for one item: the change is
  \<open>((latest.price - previous.price) / previous.price) * 100\<close> in float arithmetic. The
  division is guarded by \<open>previous.price > 0\<close>, so it cannot raise.
\<close>

definition item_price_alerts ::
  "ordering \<Rightarrow> PriceRecord list \<Rightarrow> timestamp \<Rightarrow> real \<Rightarrow> InventoryItem \<Rightarrow>
   price_alert list" where
  "item_price_alerts order_by records now threshold_percent item =
     (case get_price_history order_by records (i_id item) None 7 now of
        latest # previous # _ \<Rightarrow>
          if r_price previous > 0 then
            (let change = fmul (fdiv (fsub (r_price latest) (r_price previous))
                                     (r_price previous)) 100 in
             if change \<le> - threshold_percent
             then [\<lparr>pa_item = item, pa_platform = r_platform latest,
                    pa_current_price = r_price latest,
                    pa_previous_price = r_price previous,
                    pa_change_percent = change,
                    pa_url = r_product_url latest\<rparr>]
             else [])
          else []
      | _ \<Rightarrow> [])"

definition get_price_alerts ::
  "ordering \<Rightarrow> InventoryItem list \<Rightarrow> PriceRecord list \<Rightarrow> timestamp \<Rightarrow> real \<Rightarrow>
   price_alert list" where
  "get_price_alerts order_by inventory records now threshold_percent =
     concat (map (item_price_alerts order_by records now threshold_percent)
                 (filter (\<lambda>item. i_is_active item = 1) inventory))"

text \<open>
  The detector the specification describes: the two most recent entries, whatever their
  age, against a threshold given as a fraction of the previous price.
\<close>

definition detect_drop_spec :: "PriceRecord list \<Rightarrow> int \<Rightarrow> real \<Rightarrow> bool" where
  "detect_drop_spec records inventory_item_id threshold_fraction =
     (case sort_key (\<lambda>r. - r_scraped_at r)
             (filter (\<lambda>r. r_inventory_item_id r = Some inventory_item_id) records) of
        latest # previous # _ \<Rightarrow>
          (r_price previous - r_price latest) / r_price previous \<ge> threshold_fraction
      | _ \<Rightarrow> False)"

section \<open>Watchlist (\<open>models/watchlist.py\<close>, \<open>services/watchlist_service.py\<close>)\<close>

text \<open>
  One entry of \<open>availability_status\<close>: the dictionary stored per platform. A key the
  source leaves out and a key it sets to \<open>None\<close> read the same through \<open>.get\<close>, and
  are both \<open>None\<close> here; a missing \<open>in_stock\<close> or \<open>direct_check\<close> is \<open>False\<close>.
\<close>

record status =
  s_in_stock :: bool
  s_price :: "real option"
  s_product_id :: "string option"
  s_url :: "string option"
  s_name :: "string option"
  s_checked_at :: timestamp
  s_direct_check :: bool
  s_error :: "string option"
  s_note :: "string option"

text \<open>An entry of \<open>platform_products\<close>: the known product page of a platform.\<close>

record product_info =
  pi_url :: "string option"
  pi_search_url :: bool

record WatchlistItem =
  w_id :: int
  w_name :: string
  w_brand :: "string option"
  w_search_keywords :: "string list"
  w_target_platforms :: "platform list"
  w_platform_products :: "(platform \<times> product_info) list"
  w_weekly_target_qty :: int
  w_max_price :: "real option"
  w_is_active :: bool
  w_last_checked_at :: "timestamp option"
  w_last_available_at :: "timestamp option"
  w_current_best_price :: "real option"
  w_current_best_platform :: "platform option"
  w_availability_status :: "(platform \<times> status) list"
  w_notify_on_restock :: bool
  w_notify_on_price_drop :: bool
  w_price_drop_threshold :: real

datatype alert_type = restock | price_drop | out_of_stock

text \<open>
  A row of \<open>watchlist_alerts\<close>. The \<open>message\<close> column is formatted text and is left
  out; the e-mail sent after each row carries the same platform and prices.
\<close>

record WatchlistAlert =
  al_watchlist_item_id :: int
  al_alert_type :: alert_type
  al_platform :: platform
  al_old_price :: "real option"
  al_new_price :: "real option"

subsection \<open>\<open>WatchlistItem.is_available_anywhere\<close> and \<open>get_best_deal\<close>\<close>

definition is_available_anywhere :: "WatchlistItem \<Rightarrow> bool" where
  "is_available_anywhere item =
     (if w_availability_status item = [] then False
      else list_ex (\<lambda>(p, s). s_in_stock s) (w_availability_status item))"

text \<open>
  Python's \<open>min(xs, key=k)\<close> on a non-empty list, started at its first element: a later
  element replaces the best one only when its key is strictly smaller.
\<close>

fun py_min :: "('a \<Rightarrow> real) \<Rightarrow> 'a \<Rightarrow> 'a list \<Rightarrow> 'a" where
  "py_min k best [] = best"
| "py_min k best (x # xs) = py_min k (if k x < k best then x else best) xs"

definition price_key :: "platform \<times> status \<Rightarrow> real" where
  "price_key x = the (s_price (snd x))"

definition available_entries :: "(platform \<times> status) list \<Rightarrow> (platform \<times> status) list" where
  "available_entries results = filter (\<lambda>(p, s). s_in_stock s \<and> truthy (s_price s)) results"

definition get_best_deal :: "WatchlistItem \<Rightarrow> (platform \<times> status) option" where
  "get_best_deal item =
     (if w_availability_status item = [] then None
      else
        (case available_entries (w_availability_status item) of
           [] \<Rightarrow> None
         | x # xs \<Rightarrow> Some (py_min price_key x xs)))"

subsection \<open>\<open>WatchlistService.check_availability\<close>\<close>

text \<open>
  What \<open>check_specific_url\<close> returns, and the two collaborators of a check cycle: the
  page fetcher, and the search of one platform (\<open>get_adapter\<close>, \<open>search_products\<close> with
  \<open>limit=5\<close> and \<open>close\<close>, any of which may raise).
\<close>

record url_result =
  u_in_stock :: bool
  u_price :: "real option"
  u_title :: "string option"
  u_checked_at :: timestamp
  u_error :: "string option"

type_synonym url_checker = "string \<Rightarrow> string + url_result"
type_synonym searcher = "platform \<Rightarrow> string \<Rightarrow> int \<Rightarrow> string + Product list"

definition join_words :: "string list \<Rightarrow> string" where
  "join_words ws = (case ws of [] \<Rightarrow> [] | w # rest \<Rightarrow> foldl (\<lambda>acc x. acc @ '' '' @ x) w rest)"

definition search_query :: "WatchlistItem \<Rightarrow> string" where
  "search_query item =
     (let search_terms = (if w_search_keywords item = [] then [w_name item]
                          else w_search_keywords item)
      in join_words (take 2 search_terms))"

text \<open>The first loop: platforms with a known product page.\<close>

definition direct_entry :: "url_checker \<Rightarrow> timestamp \<Rightarrow> string \<Rightarrow> status" where
  "direct_entry check_specific_url now url0 =
     (case check_specific_url url0 of
        Inr r \<Rightarrow>
          \<lparr>s_in_stock = u_in_stock r, s_price = u_price r, s_product_id = None,
           s_url = Some url0, s_name = u_title r, s_checked_at = u_checked_at r,
           s_direct_check = True,
           s_error = (case u_error r of None \<Rightarrow> None
                      | Some e \<Rightarrow> if e = [] then None else Some e),
           s_note = None\<rparr>
      | Inl e \<Rightarrow>
          \<lparr>s_in_stock = False, s_price = None, s_product_id = None,
           s_url = Some url0, s_name = None, s_checked_at = now,
           s_direct_check = False, s_error = Some e, s_note = None\<rparr>)"

definition direct_checks ::
  "url_checker \<Rightarrow> timestamp \<Rightarrow> (platform \<times> product_info) list \<Rightarrow>
   (platform \<times> status) list \<Rightarrow> (platform \<times> status) list" where
  "direct_checks check_specific_url now platform_products results =
     fold (\<lambda>(platform, product_info) results.
             case pi_url product_info of
               None \<Rightarrow> results
             | Some url0 \<Rightarrow>
                 if url0 = [] then results
                 else if pi_search_url product_info then results
                 else AList.update platform (direct_entry check_specific_url now url0) results)
          platform_products results"

text \<open>The matching step: the first product whose lowered name contains the lowered brand.\<close>

fun find_match :: "string option \<Rightarrow> Product list \<Rightarrow> Product option" where
  "find_match brand [] = None"
| "find_match brand (product # rest) =
     (let name_lower = lower (name product);
          brand_lower = (case brand of None \<Rightarrow> []
                         | Some b \<Rightarrow> if b = [] then [] else lower b)
      in if contains name_lower brand_lower then Some product
         else find_match brand rest)"

definition search_entry :: "WatchlistItem \<Rightarrow> timestamp \<Rightarrow> string + Product list \<Rightarrow> status" where
  "search_entry item now outcome =
     (case outcome of
        Inr products \<Rightarrow>
          (case find_match (w_brand item) products of
             Some found \<Rightarrow>
               \<lparr>s_in_stock = in_stock found, s_price = Some (price found),
                s_product_id = Some (product_id found), s_url = Some (url found),
                s_name = Some (name found), s_checked_at = now,
                s_direct_check = False, s_error = None, s_note = None\<rparr>
           | None \<Rightarrow>
               \<lparr>s_in_stock = False, s_price = None, s_product_id = None,
                s_url = None, s_name = None, s_checked_at = now,
                s_direct_check = False, s_error = None,
                s_note = Some ''Product not found''\<rparr>)
      | Inl e \<Rightarrow>
          \<lparr>s_in_stock = False, s_price = None, s_product_id = None,
           s_url = None, s_name = None, s_checked_at = now,
           s_direct_check = False, s_error = Some e, s_note = None\<rparr>)"

definition search_checks ::
  "searcher \<Rightarrow> WatchlistItem \<Rightarrow> timestamp \<Rightarrow> platform list \<Rightarrow>
   (platform \<times> status) list \<Rightarrow> (platform \<times> status) list" where
  "search_checks search item now platforms results =
     fold (\<lambda>platform results.
             AList.update platform
               (search_entry item now (search platform (search_query item) 5)) results)
          platforms results"

subsection \<open>\<open>WatchlistService._check_alerts\<close>\<close>

text \<open>
  The alerts one platform adds to the session. The change is
  \<open>(old["price"] - status["price"]) / old["price"]\<close> in float arithmetic; it is computed
  only when the old price is non-zero, so the division cannot raise.
\<close>

definition platform_alerts ::
  "WatchlistItem \<Rightarrow> (platform \<times> status) list \<Rightarrow> platform \<times> status \<Rightarrow> WatchlistAlert list" where
  "platform_alerts item old_status entry =
     (let platform = fst entry; status = snd entry;
          old = map_of old_status platform;
          old_in_stock = (case old of None \<Rightarrow> False | Some s \<Rightarrow> s_in_stock s);
          old_price = (case old of None \<Rightarrow> None | Some s \<Rightarrow> s_price s)
      in
        (if s_in_stock status \<and> \<not> old_in_stock then
           (if w_notify_on_restock item then
              [\<lparr>al_watchlist_item_id = w_id item, al_alert_type = restock,
                al_platform = platform, al_old_price = None,
                al_new_price = s_price status\<rparr>]
            else [])
         else [])
        @
        (if truthy (s_price status) \<and> truthy old_price then
           (let price_change = fdiv (fsub (the old_price) (the (s_price status)))
                                    (the old_price) in
            if price_change \<ge> w_price_drop_threshold item then
              (if w_notify_on_price_drop item then
                 [\<lparr>al_watchlist_item_id = w_id item, al_alert_type = price_drop,
                   al_platform = platform, al_old_price = old_price,
                   al_new_price = s_price status\<rparr>]
               else [])
            else [])
         else []))"

definition check_alerts ::
  "WatchlistItem \<Rightarrow> (platform \<times> status) list \<Rightarrow> (platform \<times> status) list \<Rightarrow>
   WatchlistAlert list \<Rightarrow> WatchlistAlert list" where
  "check_alerts item old_status new_status db =
     fold (\<lambda>entry db. db @ platform_alerts item old_status entry) new_status db"

text \<open>
  A check cycle. \<open>platforms\<close> is the optional argument (\<open>[]\<close> for \<open>None\<close>),
  \<open>adapter_keys\<close> is \<open>list(ADAPTERS.keys())\<close>, \<open>db\<close> the alert rows of the session.
  \<open>effective_platforms\<close> is \<open>platforms or item.target_platforms or list(ADAPTERS.keys())\<close>.
  The result is the updated item, the session and the returned snapshot.
\<close>

definition effective_platforms :: "WatchlistItem \<Rightarrow> platform list \<Rightarrow> platform list \<Rightarrow> platform list" where
  "effective_platforms item platforms adapter_keys =
     (if platforms \<noteq> [] then platforms
      else if w_target_platforms item \<noteq> [] then w_target_platforms item
      else adapter_keys)"

definition check_availability ::
  "url_checker \<Rightarrow> searcher \<Rightarrow> platform list \<Rightarrow> timestamp \<Rightarrow> WatchlistItem \<Rightarrow>
   platform list \<Rightarrow> WatchlistAlert list \<Rightarrow>
   WatchlistItem \<times> WatchlistAlert list \<times> (platform \<times> status) list" where
  "check_availability check_specific_url search adapter_keys now item platforms db =
     (let platforms' = effective_platforms item platforms adapter_keys;
          results = search_checks search item now platforms'
                      (direct_checks check_specific_url now (w_platform_products item) []);
          old_status = w_availability_status item;
          item1 = item\<lparr>w_availability_status := results, w_last_checked_at := Some now\<rparr>
      in
        (case available_entries results of
           [] \<Rightarrow> (item1, db, results)
         | x # xs \<Rightarrow>
             (let best = py_min price_key x xs;
                  item2 = item1\<lparr>w_current_best_platform := Some (fst best),
                                 w_current_best_price := s_price (snd best),
                                 w_last_available_at := Some now\<rparr>
              in (item2, check_alerts item2 old_status results db, results))))"

subsection \<open>\<open>WatchlistService.get_weekly_shopping_list\<close>\<close>

datatype rec_status = unavailable | over_budget | available

text \<open>
  A recommendation: the dictionary appended per item, a key the source does not set being
  \<open>None\<close>. The formatted \<open>message\<close> is left out.
\<close>

record recommendation =
  rec_item :: WatchlistItem
  rec_status :: rec_status
  rec_quantity :: "int option"
  rec_platform :: "platform option"
  rec_price :: "real option"
  rec_total :: "real option"
  rec_url :: "string option"
  rec_best_deal :: "(platform \<times> status) option"

definition item_recommendations :: "WatchlistItem \<Rightarrow> recommendation list" where
  "item_recommendations item =
     (if \<not> is_available_anywhere item then
        [\<lparr>rec_item = item, rec_status = unavailable, rec_quantity = None,
          rec_platform = None, rec_price = None, rec_total = None, rec_url = None,
          rec_best_deal = None\<rparr>]
      else
        (case get_best_deal item of
           None \<Rightarrow> []
         | Some best_deal \<Rightarrow>
             if truthy (w_max_price item) \<and> price_key best_deal > the (w_max_price item) then
               [\<lparr>rec_item = item, rec_status = over_budget, rec_quantity = None,
                 rec_platform = None, rec_price = None, rec_total = None, rec_url = None,
                 rec_best_deal = Some best_deal\<rparr>]
             else
               [\<lparr>rec_item = item, rec_status = available,
                 rec_quantity = Some (w_weekly_target_qty item),
                 rec_platform = Some (fst best_deal),
                 rec_price = Some (price_key best_deal),
                 rec_total = Some (fmul (price_key best_deal)
                                        (py_float (real_of_int (w_weekly_target_qty item)))),
                 rec_url = s_url (snd best_deal),
                 rec_best_deal = None\<rparr>]))"

definition get_weekly_shopping_list :: "WatchlistItem list \<Rightarrow> recommendation list" where
  "get_weekly_shopping_list watchlist =
     concat (map item_recommendations (filter w_is_active watchlist))"

section \<open>Example inputs\<close>

text \<open>
  Source \<open>A\<close> lists a product with unit price 5, source \<open>B\<close> one with only a raw
  price of 4; source \<open>C\<close> lists a product with a size text and no unit price.
\<close>

definition listing_A :: Product where
  "listing_A = \<lparr>product_id = ''a1'', name = ''Rice 1.4kg'', price = 7, unit_price = Some 5,
                 unit_size = Some ''1.4kg'', in_stock = True, url = ''''\<rparr>"

definition listing_B :: Product where
  "listing_B = \<lparr>product_id = ''b1'', name = ''Rice bag'', price = 4, unit_price = None,
                 unit_size = None, in_stock = True, url = ''''\<rparr>"

definition listing_C :: Product where
  "listing_C = \<lparr>product_id = ''c1'', name = ''Oats'', price = 20, unit_price = None,
                 unit_size = Some ''500g'', in_stock = True, url = ''''\<rparr>"

definition two_sources :: "(platform \<times> adapter) list" where
  "two_sources = [(''A'', \<lambda>query limit. Inr [listing_A]), (''B'', \<lambda>query limit. Inr [listing_B])]"

definition source_C :: "(platform \<times> adapter) list" where
  "source_C = [(''C'', \<lambda>query limit. Inr [listing_C])]"

text \<open>Inputs for the watchlist, the price history and the failure cases.\<close>

definition example_status :: "bool \<Rightarrow> real option \<Rightarrow> status" where
  "example_status stock p =
     \<lparr>s_in_stock = stock, s_price = p, s_product_id = None, s_url = None, s_name = None,
      s_checked_at = 0, s_direct_check = False, s_error = None, s_note = None\<rparr>"

definition sardines :: WatchlistItem where
  "sardines =
     \<lparr>w_id = 1, w_name = ''Spiced Sardines'', w_brand = Some ''NURI'',
      w_search_keywords = [''NURI'', ''Sardines'', ''Spiced''], w_target_platforms = [''A''],
      w_platform_products = [], w_weekly_target_qty = 2, w_max_price = Some 15,
      w_is_active = True, w_last_checked_at = None, w_last_available_at = None,
      w_current_best_price = None, w_current_best_platform = None,
      w_availability_status = [(''A'', example_status False (Some 10))],
      w_notify_on_restock = True, w_notify_on_price_drop = True,
      w_price_drop_threshold = py_float (1 / 10)\<rparr>"

definition no_pages :: url_checker where
  "no_pages url0 = Inl ''no page''"

definition shelf :: "bool \<Rightarrow> real \<Rightarrow> searcher" where
  "shelf stock p platform query limit =
     Inr [\<lparr>product_id = ''n1'', name = ''Nuri Spiced Sardines 125g'', price = p,
           unit_price = None, unit_size = None, in_stock = stock, url = ''https://a/n1''\<rparr>]"

definition unbranded :: WatchlistItem where
  "unbranded = sardines\<lparr>w_brand := Some [], w_availability_status := []\<rparr>"

definition two_listings :: searcher where
  "two_listings platform query limit = Inr [listing_B, listing_A]"

definition quiet :: WatchlistItem where
  "quiet = sardines\<lparr>w_notify_on_restock := False\<rparr>"

definition eager :: WatchlistItem where
  "eager = sardines\<lparr>w_price_drop_threshold := 0\<rparr>"

definition faulty_sources :: "(platform \<times> adapter) list" where
  "faulty_sources = [(''A'', \<lambda>query limit. Inl ''timeout''), (''B'', \<lambda>query limit. Inr [listing_B])]"

definition empty_sources :: "(platform \<times> adapter) list" where
  "empty_sources = [(''A'', \<lambda>query limit. Inr []), (''B'', \<lambda>query limit. Inr [listing_B])]"

definition one_down :: searcher where
  "one_down platform query limit =
     (if platform = ''A'' then Inl ''connection refused''
      else Inr [\<lparr>product_id = ''n1'', name = ''Nuri Spiced Sardines 125g'', price = 9,
                 unit_price = None, unit_size = None, in_stock = True, url = ''https://b/n1''\<rparr>])"

definition price_row :: "real \<Rightarrow> timestamp \<Rightarrow> PriceRecord" where
  "price_row p t = \<lparr>r_inventory_item_id = Some 1, r_platform = ''A'', r_price = p,
                     r_product_url = ''https://a/1'', r_scraped_at = t\<rparr>"

definition item_1 :: InventoryItem where
  "item_1 = \<lparr>i_id = 1, i_is_active = 1\<rparr>"

definition priced :: "real option \<Rightarrow> real \<Rightarrow> WatchlistItem" where
  "priced max_price0 p =
     sardines\<lparr>w_max_price := max_price0,
              w_availability_status := [(''A'', example_status True (Some p))]\<rparr>"

definition unpriced :: WatchlistItem where
  "unpriced = sardines\<lparr>w_availability_status := [(''A'', example_status True None)]\<rparr>"

section \<open>Float arithmetic\<close>

lemmas float_eval =
  round64_def round_half_even_def pow2_def scale_up.simps scale_down.simps
  py_float_def fsub_def fmul_def fdiv_def Let_def

lemma round64_zero: "round64 0 = 0"
  by (simp add: round64_def)

text \<open>The rounding agrees with Python on the literals and quotients used below.\<close>

lemma round64_examples:
  "py_float (1 / 10) = 3602879701896397 / 36028797018963968 \<and>
   py_float (27 / 10) = 3039929748475085 / 1125899906842624 \<and>
   py_float (17 / 2) = 17 / 2 \<and>
   fdiv (fsub 3 (py_float (27 / 10))) 3 = 7205759403792789 / 72057594037927936"
  by (simp add: float_eval)

section \<open>Unit price normalisation\<close>

lemmas size_eval =
  calculate_unit_price_def match_size_def match_number_def match_unit_def strip_def
  lower_def lower_char_def upper_letters_def lower_letters_def is_space_def is_digit_def
  decimal_value_def digits_val_def digit_val_def py_div_def float_eval

lemma digit_cases:
  "is_digit c \<Longrightarrow> c = CHR ''0'' \<or> c = CHR ''1'' \<or> c = CHR ''2'' \<or> c = CHR ''3'' \<or> c = CHR ''4'' \<or>
     c = CHR ''5'' \<or> c = CHR ''6'' \<or> c = CHR ''7'' \<or> c = CHR ''8'' \<or> c = CHR ''9''"
  by (simp add: is_digit_def)

lemma space_cases:
  "is_space c \<Longrightarrow> c = CHR 0x09 \<or> c = CHR 0x0A \<or> c = CHR 0x0B \<or> c = CHR 0x0C \<or> c = CHR 0x0D \<or>
     c = CHR 0x1C \<or> c = CHR 0x1D \<or> c = CHR 0x1E \<or> c = CHR 0x1F \<or> c = CHR 0x20 \<or>
     c = CHR 0x85 \<or> c = CHR 0xA0"
  by (simp add: is_space_def)

lemma digit_not_space: "is_digit c \<Longrightarrow> \<not> is_space c"
  by (drule digit_cases, elim disjE) (simp_all add: is_space_def)

lemma dot_no_space: "\<not> is_space CHR ''.''"
  by (simp add: is_space_def)

lemma dot_no_digit: "\<not> is_digit CHR ''.''"
  by (simp add: is_digit_def)

lemma match_unit_cases:
  assumes "match_unit r = Some u"
  shows "u = ''kg'' \<or> u = ''g'' \<or> u = ''l'' \<or> u = ''ml'' \<or> u = ''pcs'' \<or> u = ''pc'' \<or>
         u = ''pieces'' \<or> u = ''piece'' \<or> u = ''pack'' \<or> u = ''each''"
  using assms by (simp add: match_unit_def split: if_splits)

lemma match_unit_find: "match_unit r = List.find (\<lambda>u. prefix u r) unit_tokens"
  by (simp add: match_unit_def unit_tokens_def)

lemma match_unit_prefix: "match_unit r = Some u \<Longrightarrow> u \<in> set unit_tokens \<and> prefix u r"
  unfolding match_unit_find by (auto simp: find_Some_iff)

lemma match_unit_None_iff: "match_unit r = None \<longleftrightarrow> (\<forall>u \<in> set unit_tokens. \<not> prefix u r)"
  unfolding match_unit_find find_None_iff by blast

lemma match_unit_head:
  assumes "match_unit r = Some u"
  shows "\<exists>c cs. r = c # cs \<and> \<not> is_digit c \<and> \<not> is_space c \<and> c \<noteq> CHR ''.''"
proof -
  from match_unit_prefix [OF assms] obtain z where r: "r = u @ z"
    by (auto simp: prefix_def)
  from match_unit_cases [OF assms] show ?thesis
    by (elim disjE) (simp_all add: r is_digit_def is_space_def)
qed

lemma takeWhile_digits:
  assumes "list_all is_digit ds" and "r = [] \<or> \<not> is_digit (hd r)"
  shows "takeWhile is_digit (ds @ r) = ds \<and> dropWhile is_digit (ds @ r) = r"
proof -
  from assms(1) have a: "\<forall>c \<in> set ds. is_digit c" by (simp add: list_all_iff)
  from assms(2) have "takeWhile is_digit r = [] \<and> dropWhile is_digit r = r"
    by (cases r) auto
  with a show ?thesis by (simp add: takeWhile_append2 dropWhile_append2)
qed

lemma dropWhile_spaces:
  assumes "list_all is_space ws" and "r = [] \<or> \<not> is_space (hd r)"
  shows "dropWhile is_space (ws @ r) = r"
proof -
  from assms(1) have a: "\<forall>c \<in> set ws. is_space c" by (simp add: list_all_iff)
  from assms(2) have "dropWhile is_space r = r" by (cases r) auto
  with a show ?thesis by (simp add: dropWhile_append2)
qed

lemma shape_match_size:
  assumes ds: "ds \<noteq> []" "list_all is_digit ds"
    and fr: "is_fraction fr"
    and ws: "list_all is_space ws"
    and mu: "match_unit rest = Some u"
  shows "match_size (ds @ fr @ ws @ rest) = Some (py_float (decimal_value ds (tl fr)), u)"
proof -
  from match_unit_head [OF mu] obtain c cs where
    rest: "rest = c # cs" and c: "\<not> is_digit c" "\<not> is_space c" "c \<noteq> CHR ''.''"
    by blast
  have sp: "dropWhile is_space (ws @ rest) = rest"
    by (rule dropWhile_spaces [OF ws]) (simp add: rest c)
  have tail: "ws @ rest \<noteq> [] \<and> \<not> is_digit (hd (ws @ rest)) \<and> hd (ws @ rest) \<noteq> CHR ''.''"
  proof (cases ws)
    case Nil
    then show ?thesis by (simp add: rest c)
  next
    case (Cons w ws')
    with ws have "is_space w" by simp
    then have "\<not> is_digit w" "w \<noteq> CHR ''.''"
      using digit_not_space [of w] dot_no_space by blast+
    with Cons show ?thesis by simp
  qed
  show ?thesis
  proof (cases fr)
    case Nil
    from tail obtain d r' where d: "ws @ rest = d # r'" "\<not> is_digit d" "d \<noteq> CHR ''.''"
      by (cases "ws @ rest") auto
    have tw: "takeWhile is_digit (ds @ ws @ rest) = ds \<and> dropWhile is_digit (ds @ ws @ rest) = ws @ rest"
      by (rule takeWhile_digits [OF ds(2)]) (simp add: d)
    have "match_number (ds @ ws @ rest) = Some (py_float (decimal_value ds []), ws @ rest)"
      unfolding match_number_def using tw ds(1) d by (simp add: Let_def)
    then show ?thesis
      by (simp add: Nil match_size_def sp mu)
  next
    case (Cons x fs)
    with fr have x: "x = CHR ''.''" and fs: "fs \<noteq> []" "list_all is_digit fs"
      by (simp_all add: is_fraction_def)
    have tw: "takeWhile is_digit (ds @ (CHR ''.'' # fs @ ws @ rest)) = ds \<and>
              dropWhile is_digit (ds @ (CHR ''.'' # fs @ ws @ rest)) = CHR ''.'' # fs @ ws @ rest"
      by (rule takeWhile_digits [OF ds(2)]) (simp add: dot_no_digit)
    have tw2: "takeWhile is_digit (fs @ (ws @ rest)) = fs \<and>
               dropWhile is_digit (fs @ (ws @ rest)) = ws @ rest"
      by (rule takeWhile_digits [OF fs(2)]) (simp add: tail)
    have "match_number (ds @ (CHR ''.'' # fs @ ws @ rest)) =
            Some (py_float (decimal_value ds fs), ws @ rest)"
      unfolding match_number_def using tw tw2 ds(1) fs(1) by (simp add: Let_def)
    then show ?thesis
      by (simp add: Cons x match_size_def sp mu)
  qed
qed

lemma match_number_shape:
  assumes "match_number t = Some (q, r)"
  shows "\<exists>ds fr. t = ds @ fr @ r \<and> ds \<noteq> [] \<and> list_all is_digit ds \<and> is_fraction fr \<and>
           q = py_float (decimal_value ds (tl fr))"
proof -
  let ?ds = "takeWhile is_digit t" and ?r0 = "dropWhile is_digit t"
  have t: "t = ?ds @ ?r0" by simp
  have dd: "list_all is_digit ?ds" by (auto simp: list_all_iff dest: set_takeWhileD)
  from assms have ne: "?ds \<noteq> []"
    by (auto simp: match_number_def Let_def split: if_splits)
  show ?thesis
  proof (cases ?r0)
    case Nil
    with assms ne have "q = py_float (decimal_value ?ds [])" "r = []"
      by (simp_all add: match_number_def Let_def)
    with t Nil ne dd have "t = ?ds @ [] @ r \<and> ?ds \<noteq> [] \<and> list_all is_digit ?ds \<and>
        is_fraction [] \<and> q = py_float (decimal_value ?ds (tl []))"
      by (simp add: is_fraction_def)
    then show ?thesis by blast
  next
    case (Cons c r')
    let ?fs = "takeWhile is_digit r'"
    have r': "r' = ?fs @ dropWhile is_digit r'" by simp
    have fd: "list_all is_digit ?fs" by (auto simp: list_all_iff dest: set_takeWhileD)
    show ?thesis
    proof (cases "c = CHR ''.'' \<and> ?fs \<noteq> []")
      case True
      with assms ne Cons have q: "q = py_float (decimal_value ?ds ?fs)"
        and r: "r = dropWhile is_digit r'"
        by (simp_all add: match_number_def Let_def)
      have "t = ?ds @ (CHR ''.'' # ?fs) @ r"
        using t Cons True r r' by (metis append_Cons)
      moreover have "is_fraction (CHR ''.'' # ?fs)"
        using True fd by (simp add: is_fraction_def)
      ultimately have "t = ?ds @ (CHR ''.'' # ?fs) @ r \<and> ?ds \<noteq> [] \<and> list_all is_digit ?ds \<and>
          is_fraction (CHR ''.'' # ?fs) \<and> q = py_float (decimal_value ?ds (tl (CHR ''.'' # ?fs)))"
        using ne dd q by simp
      then show ?thesis by blast
    next
      case False
      with assms ne Cons have "q = py_float (decimal_value ?ds [])" "r = c # r'"
        by (auto simp add: match_number_def Let_def)
      with t Cons ne dd have "t = ?ds @ [] @ r \<and> ?ds \<noteq> [] \<and> list_all is_digit ?ds \<and>
          is_fraction [] \<and> q = py_float (decimal_value ?ds (tl []))"
        by (simp add: is_fraction_def)
      then show ?thesis by blast
    qed
  qed
qed

lemma match_size_shape:
  assumes "match_size t = Some (q, u)"
  shows "\<exists>ds fr ws rest. t = ds @ fr @ ws @ rest \<and> ds \<noteq> [] \<and> list_all is_digit ds \<and>
           is_fraction fr \<and> list_all is_space ws \<and> match_unit rest = Some u \<and>
           q = py_float (decimal_value ds (tl fr))"
proof -
  from assms obtain r where mn: "match_number t = Some (q, r)"
    and mu: "match_unit (dropWhile is_space r) = Some u"
    by (auto simp: match_size_def split: option.splits)
  from match_number_shape [OF mn] obtain ds fr where
    t: "t = ds @ fr @ r" and rest: "ds \<noteq> []" "list_all is_digit ds" "is_fraction fr"
      "q = py_float (decimal_value ds (tl fr))"
    by blast
  have r: "r = takeWhile is_space r @ dropWhile is_space r" by simp
  have ws: "list_all is_space (takeWhile is_space r)"
    by (auto simp: list_all_iff dest: set_takeWhileD)
  from t r have "t = ds @ fr @ takeWhile is_space r @ dropWhile is_space r" by simp
  with rest ws mu show ?thesis by blast
qed

lemma match_size_iff:
  "match_size t = Some (q, u) \<longleftrightarrow>
     (\<exists>ds fr ws rest. t = ds @ fr @ ws @ rest \<and> ds \<noteq> [] \<and> list_all is_digit ds \<and>
        is_fraction fr \<and> list_all is_space ws \<and> match_unit rest = Some u \<and>
        q = py_float (decimal_value ds (tl fr)))"
proof
  assume "match_size t = Some (q, u)"
  then show "\<exists>ds fr ws rest. t = ds @ fr @ ws @ rest \<and> ds \<noteq> [] \<and> list_all is_digit ds \<and>
        is_fraction fr \<and> list_all is_space ws \<and> match_unit rest = Some u \<and>
        q = py_float (decimal_value ds (tl fr))"
    by (rule match_size_shape)
next
  assume "\<exists>ds fr ws rest. t = ds @ fr @ ws @ rest \<and> ds \<noteq> [] \<and> list_all is_digit ds \<and>
        is_fraction fr \<and> list_all is_space ws \<and> match_unit rest = Some u \<and>
        q = py_float (decimal_value ds (tl fr))"
  then obtain ds fr ws rest where "t = ds @ fr @ ws @ rest" "ds \<noteq> []" "list_all is_digit ds"
        "is_fraction fr" "list_all is_space ws" "match_unit rest = Some u"
        "q = py_float (decimal_value ds (tl fr))"
    by blast
  then show "match_size t = Some (q, u)"
    using shape_match_size [of ds fr ws rest u] by simp
qed







section \<open>Comparison across platforms\<close>

lemmas compare_eval =
  compare_prices_def search_all_platforms_def flatten_def sort_key_of_def truthy_def

lemma update_fresh: "k \<notin> fst ` set al \<Longrightarrow> AList.update k v al = al @ [(k, v)]"
  by (induction al) auto

lemma fold_update_fresh:
  "distinct (map fst xs) \<Longrightarrow> fst ` set acc \<inter> fst ` set xs = {} \<Longrightarrow>
   fold (\<lambda>(k, a) results. AList.update k (f a) results) xs acc = acc @ map (\<lambda>(k, a). (k, f a)) xs"
proof (induction xs arbitrary: acc)
  case Nil
  then show ?case by simp
next
  case (Cons x xs)
  obtain k a where x: "x = (k, a)" by (cases x)
  from Cons.prems x have fresh: "k \<notin> fst ` set acc" by auto
  from Cons.prems x have d: "distinct (map fst xs)" by simp
  from Cons.prems x have "fst ` set (acc @ [(k, f a)]) \<inter> fst ` set xs = {}"
    by (auto simp: image_iff)
  from Cons.IH [OF d this] show ?case
    by (simp add: x update_fresh [OF fresh])
qed

lemma search_all_platforms_step:
  "(\<lambda>(platform_name, adapter) results.
             case adapter query limit of
               Inr products \<Rightarrow> AList.update platform_name products results
             | Inl e \<Rightarrow> AList.update platform_name [] results)
   = (\<lambda>(k, a) results.
        AList.update k (case a query limit of Inr products \<Rightarrow> products | Inl e \<Rightarrow> []) results)"
  by (auto simp: fun_eq_iff split: sum.splits)

lemma search_all_platforms_distinct:
  assumes "distinct (map fst adapters)"
  shows "search_all_platforms adapters query limit =
         map (\<lambda>(k, a). (k, case a query limit of Inr products \<Rightarrow> products | Inl e \<Rightarrow> [])) adapters"
  unfolding search_all_platforms_def search_all_platforms_step
  using fold_update_fresh [OF assms, of "[]"] by simp

lemma sorted_map_filter: "sorted (map f xs) \<Longrightarrow> sorted (map f (filter P xs))"
  by (induction xs) auto

lemma in_flatten:
  "x \<in> set (flatten all_results) \<Longrightarrow>
   c_price x = price (c_product x) \<and> c_unit_price x = unit_price (c_product x)"
  by (auto simp: flatten_def)

text \<open>
  C1, as stated, fails: the listing of \<open>B\<close> with raw price 4 and no unit price is put
  before the listing of \<open>A\<close> with unit price 5, so the result is not in two segments.
\<close>

theorem compare_prices_two_segment_counterexample:
  "map c_platform (compare_prices two_sources ''rice'' 5) = [''B'', ''A''] \<and>
   map c_unit_price (compare_prices two_sources ''rice'' 5) = [None, Some 5] \<and>
   \<not> two_segment_order (compare_prices two_sources ''rice'' 5)"
  by (simp add: compare_eval two_sources_def listing_A_def listing_B_def
        two_segment_order_def has_unit_price_def)

text \<open>
  C1, amended. The list \<open>compare_prices\<close> returns is ascending in one key, the unit
  price when it is present and non-zero and the raw price otherwise, so the two kinds of
  record are interleaved by that key. Each kind on its own is ascending, the records with
  a unit price by unit price and the others by raw price, and the list holds exactly the
  records of all platforms.
\<close>

theorem compare_prices_single_key_order:
  "sorted (map sort_key_of (compare_prices adapters query limit)) \<and>
   sorted (map (\<lambda>x. the (c_unit_price x))
             (filter (\<lambda>x. truthy (c_unit_price x)) (compare_prices adapters query limit))) \<and>
   sorted (map c_price
             (filter (\<lambda>x. \<not> truthy (c_unit_price x)) (compare_prices adapters query limit))) \<and>
   mset (compare_prices adapters query limit) =
     mset (flatten (search_all_platforms adapters query limit))"
proof -
  let ?xs = "compare_prices adapters query limit"
  have s: "sorted (map sort_key_of ?xs)"
    by (simp add: compare_prices_def)
  have u: "map (\<lambda>x. the (c_unit_price x)) (filter (\<lambda>x. truthy (c_unit_price x)) ?xs)
           = map sort_key_of (filter (\<lambda>x. truthy (c_unit_price x)) ?xs)"
    by (rule map_cong) (auto simp: sort_key_of_def)
  have r: "map c_price (filter (\<lambda>x. \<not> truthy (c_unit_price x)) ?xs)
           = map sort_key_of (filter (\<lambda>x. \<not> truthy (c_unit_price x)) ?xs)"
    by (rule map_cong) (auto simp: sort_key_of_def)
  have m: "mset ?xs = mset (flatten (search_all_platforms adapters query limit))"
    by (simp add: compare_prices_def)
  from s show ?thesis
    unfolding u r using m by (simp add: sorted_map_filter)
qed

theorem compare_prices_single_key_order_witness:
  "sorted (map sort_key_of (compare_prices two_sources ''rice'' 5)) \<and>
   map sort_key_of (compare_prices two_sources ''rice'' 5) = [4, 5]"
  using compare_prices_single_key_order [of two_sources "''rice''" 5]
  by (simp add: compare_eval two_sources_def listing_A_def listing_B_def)

text \<open>
  C2, as stated, fails: a listing that reaches \<open>compare_prices\<close> with a size text of
  \<open>500g\<close>, a price of 20 and no unit price is sorted under the key 20, while the
  normaliser gives 40 for it.
\<close>

theorem compare_prices_no_normalizer_counterexample:
  "map (unit_price \<circ> c_product) (compare_prices source_C ''oats'' 5) = [None] \<and>
   map sort_key_of (compare_prices source_C ''oats'' 5) = [20] \<and>
   calculate_unit_price (price listing_C) (the (unit_size listing_C)) = Inr (Some 40)"
  by (simp add: compare_eval source_C_def listing_C_def size_eval)

text \<open>
  C2, amended. \<open>compare_prices\<close> applies no normaliser: every record carries the price
  and the unit price of its listing as the adapter produced them at ingestion, and the
  sort key of a listing without a (non-zero) unit price is its raw price.
\<close>

theorem compare_prices_keeps_ingested_unit_price:
  "\<forall>x \<in> set (compare_prices adapters query limit).
     c_unit_price x = unit_price (c_product x) \<and>
     c_price x = price (c_product x) \<and>
     (\<not> truthy (unit_price (c_product x)) \<longrightarrow> sort_key_of x = price (c_product x))"
proof
  fix x assume "x \<in> set (compare_prices adapters query limit)"
  then have "x \<in> set (flatten (search_all_platforms adapters query limit))"
    by (simp add: compare_prices_def)
  from in_flatten [OF this]
  show "c_unit_price x = unit_price (c_product x) \<and>
        c_price x = price (c_product x) \<and>
        (\<not> truthy (unit_price (c_product x)) \<longrightarrow> sort_key_of x = price (c_product x))"
    by (simp add: sort_key_of_def)
qed

theorem compare_prices_keeps_ingested_unit_price_witness:
  "compare_prices source_C ''oats'' 5 =
     [\<lparr>c_platform = ''C'', c_product = listing_C, c_price = 20, c_unit_price = None\<rparr>] \<and>
   sort_key_of \<lparr>c_platform = ''C'', c_product = listing_C, c_price = 20, c_unit_price = None\<rparr> = 20"
proof -
  have e: "compare_prices source_C ''oats'' 5 =
     [\<lparr>c_platform = ''C'', c_product = listing_C, c_price = 20, c_unit_price = None\<rparr>]"
    by (simp add: compare_eval source_C_def listing_C_def)
  have n: "\<not> truthy (unit_price listing_C)" by (simp add: truthy_def listing_C_def)
  have p: "price listing_C = 20" by (simp add: listing_C_def)
  from compare_prices_keeps_ingested_unit_price [of source_C "''oats''" 5]
  have "sort_key_of \<lparr>c_platform = ''C'', c_product = listing_C, c_price = 20, c_unit_price = None\<rparr> = 20"
    unfolding e using n p by simp
  with e show ?thesis by simp
qed

section \<open>Check cycles and alerts\<close>

lemma map_of_search_checks:
  "map_of (search_checks search item now ps acc) k =
     (if k \<in> set ps then Some (search_entry item now (search k (search_query item) 5))
      else map_of acc k)"
  unfolding search_checks_def
  by (induction ps arbitrary: acc) (auto simp: update_conv')

lemma distinct_search_checks:
  "distinct (map fst acc) \<Longrightarrow> distinct (map fst (search_checks search item now ps acc))"
  unfolding search_checks_def
  by (induction ps arbitrary: acc) (auto simp: distinct_update)

lemma distinct_direct_checks:
  "distinct (map fst acc) \<Longrightarrow> distinct (map fst (direct_checks cu now pps acc))"
  unfolding direct_checks_def
  by (induction pps arbitrary: acc) (auto simp: distinct_update split: option.splits)

lemma check_availability_results:
  "snd (snd (check_availability cu search adapter_keys now item platforms db)) =
     search_checks search item now (effective_platforms item platforms adapter_keys)
       (direct_checks cu now (w_platform_products item) [])"
  by (simp add: check_availability_def Let_def split: list.splits)

lemma distinct_results:
  "distinct (map fst (snd (snd (check_availability cu search adapter_keys now item platforms db))))"
  unfolding check_availability_results
  by (rule distinct_search_checks) (rule distinct_direct_checks, simp)

lemma check_alerts_concat:
  "check_alerts item old new db = db @ concat (map (platform_alerts item old) new)"
  unfolding check_alerts_def
  by (induction new arbitrary: db) auto

lemma platform_alerts_cong_item:
  assumes "w_id i = w_id j" "w_notify_on_restock i = w_notify_on_restock j"
    "w_notify_on_price_drop i = w_notify_on_price_drop j"
    "w_price_drop_threshold i = w_price_drop_threshold j"
  shows "platform_alerts i old = platform_alerts j old"
  using assms by (intro ext) (simp add: platform_alerts_def Let_def)

lemma platform_alerts_updated_item:
  "platform_alerts
     (item\<lparr>w_availability_status := r, w_last_checked_at := t,
           w_current_best_platform := bp, w_current_best_price := bpr,
           w_last_available_at := la\<rparr>) old
   = platform_alerts item old"
  by (rule platform_alerts_cong_item) simp_all

lemma check_availability_alerts:
  "fst (snd (check_availability cu search adapter_keys now item platforms db)) =
     (let results = snd (snd (check_availability cu search adapter_keys now item platforms db)) in
      if available_entries results = [] then db
      else db @ concat (map (platform_alerts item (w_availability_status item)) results))"
  by (simp add: check_availability_def Let_def check_alerts_concat platform_alerts_updated_item
        split: list.splits)

lemma platform_alerts_platform:
  "a \<in> set (platform_alerts item old e) \<Longrightarrow> al_platform a = fst e"
  by (auto simp: platform_alerts_def Let_def split: if_splits)

lemma filter_other_platform:
  assumes "p \<notin> fst ` set xs"
  shows "filter (\<lambda>a. al_platform a = p \<and> Q a) (concat (map (platform_alerts item old) xs)) = []"
  using assms
  by (auto simp: filter_empty_conv dest!: platform_alerts_platform)

lemma filter_platform_alerts:
  assumes "distinct (map fst xs)" and "map_of xs p = Some v"
  shows "filter (\<lambda>a. al_platform a = p \<and> Q a) (concat (map (platform_alerts item old) xs))
         = filter Q (platform_alerts item old (p, v))"
  using assms
proof (induction xs)
  case Nil
  then show ?case by simp
next
  case (Cons x xs)
  obtain k w where x: "x = (k, w)" by (cases x)
  show ?case
  proof (cases "k = p")
    case True
    with Cons.prems x have v: "w = v" and fresh: "p \<notin> fst ` set xs" by auto
    have here: "filter (\<lambda>a. al_platform a = p \<and> Q a) (platform_alerts item old (p, v))
                = filter Q (platform_alerts item old (p, v))"
      by (rule filter_cong) (auto dest: platform_alerts_platform)
    show ?thesis
      using filter_other_platform [OF fresh, of Q item old] here
      by (simp add: x True v)
  next
    case False
    with Cons.prems x have d: "distinct (map fst xs)" and m: "map_of xs p = Some v" by auto
    have "filter (\<lambda>a. al_platform a = p \<and> Q a) (platform_alerts item old (k, w)) = []"
      using False by (auto simp: filter_empty_conv dest!: platform_alerts_platform)
    with Cons.IH [OF d m] show ?thesis by (simp add: x)
  qed
qed

lemma price_drop_of_platform:
  assumes "map_of old p = Some old_s" "truthy (s_price old_s)" "truthy (s_price new_s)"
    "fdiv (fsub (the (s_price old_s)) (the (s_price new_s))) (the (s_price old_s))
       \<ge> w_price_drop_threshold item"
    "w_notify_on_price_drop item"
  shows "filter (\<lambda>a. al_alert_type a = price_drop) (platform_alerts item old (p, new_s)) =
         [\<lparr>al_watchlist_item_id = w_id item, al_alert_type = price_drop, al_platform = p,
           al_old_price = s_price old_s, al_new_price = s_price new_s\<rparr>]"
  using assms by (simp add: platform_alerts_def Let_def)

lemmas cycle_eval =
  check_availability_def effective_platforms_def search_checks_def direct_checks_def
  search_entry_def search_query_def join_words_def available_entries_def truthy_def
  check_alerts_def platform_alerts_def price_key_def lower_def lower_char_def
  upper_letters_def lower_letters_def sardines_def example_status_def shelf_def
  no_pages_def float_eval

text \<open>
  C3, as stated, fails: the old snapshot has a price of 10 for platform \<open>A\<close>, the new one
  a price of 8, the threshold is \<open>0.1\<close> and the flag is set, but no source is in stock
  and the cycle creates no alert.
\<close>

theorem price_drop_gate_counterexample:
  "map_of (w_availability_status sardines) ''A'' = Some (example_status False (Some 10)) \<and>
   map (\<lambda>(p, s). (p, s_in_stock s, s_price s))
     (snd (snd (check_availability no_pages (shelf False 8) [] 100 sardines [] []))) =
     [(''A'', False, Some 8)] \<and>
   fdiv (fsub 10 8) 10 \<ge> w_price_drop_threshold sardines \<and>
   w_notify_on_price_drop sardines \<and>
   fst (snd (check_availability no_pages (shelf False 8) [] 100 sardines [] [])) = []"
  by (simp add: cycle_eval)

lemma in_stock_cycle:
  "check_availability no_pages (shelf True 8) [] 100 sardines [] [] =
     (sardines\<lparr>w_availability_status :=
                  [(''A'', \<lparr>s_in_stock = True, s_price = Some 8, s_product_id = Some ''n1'',
                     s_url = Some ''https://a/n1'', s_name = Some ''Nuri Spiced Sardines 125g'',
                     s_checked_at = 100, s_direct_check = False, s_error = None, s_note = None\<rparr>)],
               w_last_checked_at := Some 100,
               w_current_best_platform := Some ''A'', w_current_best_price := Some 8,
               w_last_available_at := Some 100\<rparr>,
      [\<lparr>al_watchlist_item_id = 1, al_alert_type = restock, al_platform = ''A'',
        al_old_price = None, al_new_price = Some 8\<rparr>,
       \<lparr>al_watchlist_item_id = 1, al_alert_type = price_drop, al_platform = ''A'',
        al_old_price = Some 10, al_new_price = Some 8\<rparr>],
      [(''A'', \<lparr>s_in_stock = True, s_price = Some 8, s_product_id = Some ''n1'',
                     s_url = Some ''https://a/n1'', s_name = Some ''Nuri Spiced Sardines 125g'',
                     s_checked_at = 100, s_direct_check = False, s_error = None, s_note = None\<rparr>)])"
  by (simp add: cycle_eval)

text \<open>
  The change is the rounded one: from 3 to 2.7 the float quotient is just below the
  default threshold \<open>0.1\<close>, and no alert is created.
\<close>

lemma price_drop_rounding_boundary:
  "fdiv (fsub 3 (py_float (27 / 10))) 3 < py_float (1 / 10) \<and>
   check_alerts sardines [(''A'', example_status True (Some 3))]
     [(''A'', example_status True (Some (py_float (27 / 10))))] [] = []"
  by (simp add: check_alerts_def platform_alerts_def example_status_def sardines_def
        truthy_def float_eval)

text \<open>
  C3, amended. In a check cycle of a tracked item, for every source whose old and new
  snapshot entries both carry a non-zero price, if
  \<open>(old.price - new.price) / old.price\<close>, as float arithmetic computes it, is at least
  the item's threshold and its \<open>notify_on_price_drop\<close> flag is set, then exactly one
  \<open>price_drop\<close> alert for that item and source is created in the cycle, provided at
  least one source of the new snapshot is in stock with a non-zero price. When no source
  is, the cycle creates no alert at all.
\<close>

theorem price_drop_alert_once:
  assumes new: "map_of (snd (snd (check_availability cu search adapter_keys now item platforms db))) p = Some new_s"
    and old: "map_of (w_availability_status item) p = Some old_s"
    and prices: "truthy (s_price old_s)" "truthy (s_price new_s)"
    and drop: "fdiv (fsub (the (s_price old_s)) (the (s_price new_s))) (the (s_price old_s))
                 \<ge> w_price_drop_threshold item"
    and flag: "w_notify_on_price_drop item"
  shows "(available_entries (snd (snd (check_availability cu search adapter_keys now item platforms db))) \<noteq> [] \<longrightarrow>
           (\<exists>added. fst (snd (check_availability cu search adapter_keys now item platforms db)) = db @ added \<and>
              filter (\<lambda>a. al_platform a = p \<and> al_alert_type a = price_drop) added =
                [\<lparr>al_watchlist_item_id = w_id item, al_alert_type = price_drop, al_platform = p,
                  al_old_price = s_price old_s, al_new_price = s_price new_s\<rparr>])) \<and>
         (available_entries (snd (snd (check_availability cu search adapter_keys now item platforms db))) = [] \<longrightarrow>
           fst (snd (check_availability cu search adapter_keys now item platforms db)) = db)"
proof (intro conjI impI)
  let ?results = "snd (snd (check_availability cu search adapter_keys now item platforms db))"
  let ?added = "concat (map (platform_alerts item (w_availability_status item)) ?results)"
  assume av: "available_entries ?results \<noteq> []"
  then have a: "fst (snd (check_availability cu search adapter_keys now item platforms db)) = db @ ?added"
    by (simp add: check_availability_alerts Let_def)
  have "filter (\<lambda>a. al_platform a = p \<and> al_alert_type a = price_drop) ?added =
          filter (\<lambda>a. al_alert_type a = price_drop)
            (platform_alerts item (w_availability_status item) (p, new_s))"
    by (rule filter_platform_alerts [OF distinct_results new])
  also have "\<dots> = [\<lparr>al_watchlist_item_id = w_id item, al_alert_type = price_drop, al_platform = p,
                  al_old_price = s_price old_s, al_new_price = s_price new_s\<rparr>]"
    by (rule price_drop_of_platform [OF old prices drop flag])
  finally show "\<exists>added. fst (snd (check_availability cu search adapter_keys now item platforms db)) = db @ added \<and>
              filter (\<lambda>a. al_platform a = p \<and> al_alert_type a = price_drop) added =
                [\<lparr>al_watchlist_item_id = w_id item, al_alert_type = price_drop, al_platform = p,
                  al_old_price = s_price old_s, al_new_price = s_price new_s\<rparr>]"
    using a by blast
next
  assume "available_entries (snd (snd (check_availability cu search adapter_keys now item platforms db))) = []"
  then show "fst (snd (check_availability cu search adapter_keys now item platforms db)) = db"
    by (simp add: check_availability_alerts Let_def)
qed

theorem price_drop_alert_once_witness:
  "available_entries (snd (snd (check_availability no_pages (shelf True 8) [] 100 sardines [] []))) \<noteq> [] \<and>
   (\<exists>added. fst (snd (check_availability no_pages (shelf True 8) [] 100 sardines [] [])) = [] @ added \<and>
      filter (\<lambda>a. al_platform a = ''A'' \<and> al_alert_type a = price_drop) added =
        [\<lparr>al_watchlist_item_id = 1, al_alert_type = price_drop, al_platform = ''A'',
          al_old_price = Some 10, al_new_price = Some 8\<rparr>])"
proof -
  let ?new = "\<lparr>s_in_stock = True, s_price = Some 8, s_product_id = Some ''n1'',
                s_url = Some ''https://a/n1'', s_name = Some ''Nuri Spiced Sardines 125g'',
                s_checked_at = 100, s_direct_check = False, s_error = None, s_note = None\<rparr>"
  have new: "map_of (snd (snd (check_availability no_pages (shelf True 8) [] 100 sardines [] []))) ''A'' = Some ?new"
    by (simp add: in_stock_cycle)
  have old: "map_of (w_availability_status sardines) ''A'' = Some (example_status False (Some 10))"
    by (simp add: sardines_def)
  have p1: "truthy (s_price (example_status False (Some 10)))"
    by (simp add: truthy_def example_status_def)
  have p2: "truthy (s_price ?new)" by (simp add: truthy_def)
  have d: "fdiv (fsub (the (s_price (example_status False (Some 10)))) (the (s_price ?new)))
             (the (s_price (example_status False (Some 10)))) \<ge> w_price_drop_threshold sardines"
    by (simp add: example_status_def sardines_def float_eval)
  have f: "w_notify_on_price_drop sardines" by (simp add: sardines_def)
  have av: "available_entries (snd (snd (check_availability no_pages (shelf True 8) [] 100 sardines [] []))) \<noteq> []"
    by (simp add: in_stock_cycle available_entries_def truthy_def)
  from price_drop_alert_once [OF new old p1 p2 d f] av
  show ?thesis by (simp add: sardines_def example_status_def)
qed

section \<open>Matching without a brand\<close>

lemma contains_empty: "contains s []"
  by (cases s) simp_all

lemma find_match_no_brand:
  assumes "brand = None \<or> brand = Some []"
  shows "find_match brand products = (case products of [] \<Rightarrow> None | first # rest \<Rightarrow> Some first)"
  using assms by (cases products) (auto simp: contains_empty)

text \<open>
  C10. For a watchlist item whose brand is \<open>None\<close> or the empty string, the matching
  step selects the first listing a platform returns: the empty string is contained in
  every lowered product name, so the snapshot entry of every searched platform that
  returns at least one listing is built from its first listing.
\<close>

theorem empty_brand_selects_first:
  assumes brand: "w_brand item = None \<or> w_brand item = Some []"
  shows "find_match (w_brand item) products =
           (case products of [] \<Rightarrow> None | first # rest \<Rightarrow> Some first) \<and>
         (\<forall>p \<in> set (effective_platforms item platforms adapter_keys). \<forall>first rest.
            search p (search_query item) 5 = Inr (first # rest) \<longrightarrow>
            map_of (snd (snd (check_availability cu search adapter_keys now item platforms db))) p =
              Some \<lparr>s_in_stock = in_stock first, s_price = Some (price first),
                    s_product_id = Some (product_id first), s_url = Some (url first),
                    s_name = Some (name first), s_checked_at = now,
                    s_direct_check = False, s_error = None, s_note = None\<rparr>)"
proof (intro conjI ballI allI impI)
  show "find_match (w_brand item) products =
           (case products of [] \<Rightarrow> None | first # rest \<Rightarrow> Some first)"
    by (rule find_match_no_brand [OF brand])
next
  fix p first rest
  assume p: "p \<in> set (effective_platforms item platforms adapter_keys)"
    and s: "search p (search_query item) 5 = Inr (first # rest)"
  have "find_match (w_brand item) (first # rest) = Some first"
    using find_match_no_brand [OF brand, of "first # rest"] by simp
  then show "map_of (snd (snd (check_availability cu search adapter_keys now item platforms db))) p =
              Some \<lparr>s_in_stock = in_stock first, s_price = Some (price first),
                    s_product_id = Some (product_id first), s_url = Some (url first),
                    s_name = Some (name first), s_checked_at = now,
                    s_direct_check = False, s_error = None, s_note = None\<rparr>"
    using p s by (simp add: check_availability_results map_of_search_checks search_entry_def)
qed

theorem empty_brand_selects_first_witness:
  "(w_brand unbranded = None \<or> w_brand unbranded = Some []) \<and>
   find_match (w_brand unbranded) [listing_B, listing_A] = Some listing_B \<and>
   map_of (snd (snd (check_availability no_pages two_listings [] 100 unbranded [] []))) ''A'' =
     Some \<lparr>s_in_stock = True, s_price = Some 4, s_product_id = Some ''b1'', s_url = Some [],
           s_name = Some ''Rice bag'', s_checked_at = 100, s_direct_check = False,
           s_error = None, s_note = None\<rparr>"
proof -
  have b: "w_brand unbranded = None \<or> w_brand unbranded = Some []"
    by (simp add: unbranded_def)
  have p: "''A'' \<in> set (effective_platforms unbranded [] [])"
    by (simp add: effective_platforms_def unbranded_def sardines_def)
  have s: "two_listings ''A'' (search_query unbranded) 5 = Inr (listing_B # [listing_A])"
    by (simp add: two_listings_def)
  from empty_brand_selects_first [OF b, of "[listing_B, listing_A]" "[]" "[]" two_listings no_pages 100 "[]"] p s
  show ?thesis using b by (simp add: listing_B_def)
qed

section \<open>Snapshot diff\<close>

lemma restock_of_platform:
  assumes "w_notify_on_restock item" "s_in_stock new_s"
    "map_of old p = None \<or> (\<exists>old_s. map_of old p = Some old_s \<and> \<not> s_in_stock old_s)"
  shows "filter (\<lambda>a. al_alert_type a = restock) (platform_alerts item old (p, new_s)) =
         [\<lparr>al_watchlist_item_id = w_id item, al_alert_type = restock, al_platform = p,
           al_old_price = None, al_new_price = s_price new_s\<rparr>]"
  using assms by (auto simp: platform_alerts_def Let_def)

lemma steady_platform:
  assumes "map_of S p = Some s"
    and "0 < w_price_drop_threshold item \<or> \<not> w_notify_on_price_drop item"
  shows "platform_alerts item S (p, s) = []"
  using assms
  by (auto simp: platform_alerts_def Let_def truthy_def fsub_def fdiv_def round64_zero
        split: option.splits)

text \<open>
  C8, amended. For every item whose \<open>notify_on_restock\<close> flag is set, diffing an old
  snapshot in which a source is absent or not in stock against a new snapshot in which it
  is in stock emits exactly one restock alert for that source; for \<open>{A: not in stock}\<close>
  against \<open>{A: in stock, price 12}\<close> that alert is the only one. For every item whose
  threshold is positive, or whose \<open>notify_on_price_drop\<close> flag is off, diffing a
  snapshot against itself emits no alert.
\<close>

theorem snapshot_diff_steady_state:
  "(w_notify_on_restock item \<and> distinct (map fst new) \<and> map_of new p = Some new_s \<and>
    s_in_stock new_s \<and>
    (map_of old p = None \<or> (\<exists>old_s. map_of old p = Some old_s \<and> \<not> s_in_stock old_s)) \<longrightarrow>
      filter (\<lambda>a. al_platform a = p \<and> al_alert_type a = restock) (check_alerts item old new []) =
        [\<lparr>al_watchlist_item_id = w_id item, al_alert_type = restock, al_platform = p,
          al_old_price = None, al_new_price = s_price new_s\<rparr>]) \<and>
   (w_notify_on_restock item \<longrightarrow>
      check_alerts item [(p, example_status False None)] [(p, example_status True (Some 12))] [] =
        [\<lparr>al_watchlist_item_id = w_id item, al_alert_type = restock, al_platform = p,
          al_old_price = None, al_new_price = Some 12\<rparr>]) \<and>
   (distinct (map fst S) \<and>
    (0 < w_price_drop_threshold item \<or> \<not> w_notify_on_price_drop item) \<longrightarrow>
      check_alerts item S S db = db)"
proof (intro conjI impI)
  assume h: "w_notify_on_restock item \<and> distinct (map fst new) \<and> map_of new p = Some new_s \<and>
    s_in_stock new_s \<and>
    (map_of old p = None \<or> (\<exists>old_s. map_of old p = Some old_s \<and> \<not> s_in_stock old_s))"
  then have d: "distinct (map fst new)" and m: "map_of new p = Some new_s" by simp_all
  have "filter (\<lambda>a. al_platform a = p \<and> al_alert_type a = restock) (check_alerts item old new []) =
          filter (\<lambda>a. al_alert_type a = restock) (platform_alerts item old (p, new_s))"
    unfolding check_alerts_concat using filter_platform_alerts [OF d m] by simp
  also have "\<dots> = [\<lparr>al_watchlist_item_id = w_id item, al_alert_type = restock, al_platform = p,
          al_old_price = None, al_new_price = s_price new_s\<rparr>]"
    using h by (intro restock_of_platform) simp_all
  finally show "filter (\<lambda>a. al_platform a = p \<and> al_alert_type a = restock) (check_alerts item old new []) =
        [\<lparr>al_watchlist_item_id = w_id item, al_alert_type = restock, al_platform = p,
          al_old_price = None, al_new_price = s_price new_s\<rparr>]" .
next
  assume "w_notify_on_restock item"
  then show "check_alerts item [(p, example_status False None)] [(p, example_status True (Some 12))] [] =
        [\<lparr>al_watchlist_item_id = w_id item, al_alert_type = restock, al_platform = p,
          al_old_price = None, al_new_price = Some 12\<rparr>]"
    by (simp add: check_alerts_def platform_alerts_def example_status_def truthy_def Let_def)
next
  assume h: "distinct (map fst S) \<and>
    (0 < w_price_drop_threshold item \<or> \<not> w_notify_on_price_drop item)"
  have "\<forall>e \<in> set S. platform_alerts item S e = []"
  proof
    fix e assume e: "e \<in> set S"
    obtain p s where ps: "e = (p, s)" by (cases e)
    with e h have "map_of S p = Some s" by simp
    from steady_platform [OF this] h ps show "platform_alerts item S e = []" by simp
  qed
  then have "concat (map (platform_alerts item S) S) = []" by simp
  then show "check_alerts item S S db = db" by (simp add: check_alerts_concat)
qed

text \<open>
  C8, as stated, fails: an item whose \<open>notify_on_restock\<close> flag is off gets no restock
  alert, and an item with a threshold of zero gets a \<open>price_drop\<close> alert when a snapshot
  is diffed against itself.
\<close>

theorem snapshot_diff_counterexample:
  "check_alerts quiet [(''A'', example_status False None)] [(''A'', example_status True (Some 12))] [] = [] \<and>
   check_alerts eager [(''A'', example_status True (Some 12))] [(''A'', example_status True (Some 12))] [] =
     [\<lparr>al_watchlist_item_id = 1, al_alert_type = price_drop, al_platform = ''A'',
       al_old_price = Some 12, al_new_price = Some 12\<rparr>]"
  by (simp add: check_alerts_def platform_alerts_def example_status_def truthy_def Let_def
        quiet_def eager_def sardines_def fsub_def fdiv_def round64_zero)

theorem snapshot_diff_steady_state_witness:
  "w_notify_on_restock sardines \<and>
   check_alerts sardines [(''A'', example_status False None)] [(''A'', example_status True (Some 12))] [] =
     [\<lparr>al_watchlist_item_id = 1, al_alert_type = restock, al_platform = ''A'',
       al_old_price = None, al_new_price = Some 12\<rparr>] \<and>
   distinct (map fst [(''A'', example_status True (Some 12))]) \<and>
   0 < w_price_drop_threshold sardines \<and>
   check_alerts sardines [(''A'', example_status True (Some 12))] [(''A'', example_status True (Some 12))] [] = []"
proof -
  have n: "w_notify_on_restock sardines" by (simp add: sardines_def)
  have t: "0 < w_price_drop_threshold sardines" by (simp add: sardines_def float_eval)
  have i: "w_id sardines = 1" by (simp add: sardines_def)
  from snapshot_diff_steady_state [of sardines "[]" "''A''" "example_status True (Some 12)" "[]"
      "[(''A'', example_status True (Some 12))]" "[]"] n t i
  show ?thesis by simp
qed

section \<open>Failures of single sources\<close>

text \<open>
  C4, as stated, fails: when source \<open>A\<close> raises, \<open>search_all_platforms\<close> and
  \<open>compare_prices\<close> return exactly what they return when \<open>A\<close> finds nothing; the result
  holds no fault record.
\<close>

theorem no_fault_record_counterexample:
  "search_all_platforms faulty_sources ''rice'' 5 = [(''A'', []), (''B'', [listing_B])] \<and>
   search_all_platforms empty_sources ''rice'' 5 = [(''A'', []), (''B'', [listing_B])] \<and>
   map c_platform (compare_prices faulty_sources ''rice'' 5) = [''B''] \<and>
   map c_platform (compare_prices empty_sources ''rice'' 5) = [''B'']"
  by (simp add: compare_eval faulty_sources_def empty_sources_def)

text \<open>
  C4, amended. For every query and every set of sources that raise,
  \<open>search_all_platforms\<close> returns one entry per registered source in registration order,
  the products of a source that returned and the empty list for a source that raised, and
  \<open>compare_prices\<close> sorts the records of exactly these entries. \<open>check_availability\<close>
  returns for every searched platform the entry computed from that platform's own outcome
  alone, which for a platform that raised is \<open>{in_stock: False, price: None, error}\<close>.
\<close>

theorem fault_isolation:
  assumes "distinct (map fst adapters)"
  shows "search_all_platforms adapters query limit =
           map (\<lambda>(k, a). (k, case a query limit of Inr products \<Rightarrow> products | Inl e \<Rightarrow> [])) adapters \<and>
         compare_prices adapters query limit =
           sort_key sort_key_of (flatten
             (map (\<lambda>(k, a). (k, case a query limit of Inr products \<Rightarrow> products | Inl e \<Rightarrow> [])) adapters)) \<and>
         (\<forall>p \<in> set (effective_platforms item platforms adapter_keys).
            map_of (snd (snd (check_availability cu search adapter_keys now item platforms db))) p =
              Some (search_entry item now (search p (search_query item) 5))) \<and>
         search_entry item now (Inl e) =
           \<lparr>s_in_stock = False, s_price = None, s_product_id = None, s_url = None,
            s_name = None, s_checked_at = now, s_direct_check = False,
            s_error = Some e, s_note = None\<rparr>"
proof (intro conjI ballI)
  show a: "search_all_platforms adapters query limit =
           map (\<lambda>(k, a). (k, case a query limit of Inr products \<Rightarrow> products | Inl e \<Rightarrow> [])) adapters"
    by (rule search_all_platforms_distinct [OF assms])
  show "compare_prices adapters query limit =
           sort_key sort_key_of (flatten
             (map (\<lambda>(k, a). (k, case a query limit of Inr products \<Rightarrow> products | Inl e \<Rightarrow> [])) adapters))"
    by (simp add: compare_prices_def a)
next
  fix p assume "p \<in> set (effective_platforms item platforms adapter_keys)"
  then show "map_of (snd (snd (check_availability cu search adapter_keys now item platforms db))) p =
              Some (search_entry item now (search p (search_query item) 5))"
    by (simp add: check_availability_results map_of_search_checks)
next
  show "search_entry item now (Inl e) =
           \<lparr>s_in_stock = False, s_price = None, s_product_id = None, s_url = None,
            s_name = None, s_checked_at = now, s_direct_check = False,
            s_error = Some e, s_note = None\<rparr>"
    by (simp add: search_entry_def)
qed

theorem fault_isolation_witness:
  "distinct (map fst faulty_sources) \<and>
   search_all_platforms faulty_sources ''rice'' 5 = [(''A'', []), (''B'', [listing_B])] \<and>
   map (\<lambda>(p, s). (p, s_in_stock s, s_price s, s_error s))
     (snd (snd (check_availability no_pages one_down [] 100 sardines [''A'', ''B''] []))) =
     [(''A'', False, None, Some ''connection refused''), (''B'', True, Some 9, None)] \<and>
   map_of (snd (snd (check_availability no_pages one_down [] 100 sardines [''A'', ''B''] []))) ''A'' =
     Some (search_entry sardines 100 (Inl ''connection refused''))"
proof -
  have d: "distinct (map fst faulty_sources)" by (simp add: faulty_sources_def)
  have p: "''A'' \<in> set (effective_platforms sardines [''A'', ''B''] [])"
    by (simp add: effective_platforms_def)
  have r: "map (\<lambda>(p, s). (p, s_in_stock s, s_price s, s_error s))
     (snd (snd (check_availability no_pages one_down [] 100 sardines [''A'', ''B''] []))) =
     [(''A'', False, None, Some ''connection refused''), (''B'', True, Some 9, None)]"
    by (simp add: cycle_eval one_down_def)
  from fault_isolation [OF d, of "''rice''" 5 sardines "[''A'', ''B'']" "[]" no_pages one_down 100 "[]"] p
  have "search_all_platforms faulty_sources ''rice'' 5 = [(''A'', []), (''B'', [listing_B])] \<and>
        map_of (snd (snd (check_availability no_pages one_down [] 100 sardines [''A'', ''B''] []))) ''A'' =
          Some (search_entry sardines 100 (Inl ''connection refused''))"
    by (simp add: faulty_sources_def one_down_def)
  with d r show ?thesis by simp
qed

section \<open>Price drops in the history\<close>

lemmas history_eval =
  get_price_alerts_def item_price_alerts_def get_price_history_def newest_first_def
  days_seconds_def price_row_def item_1_def float_eval

text \<open>
  C5, as stated, fails: with entries of 10 and 8.5 thirty days apart the two most recent
  entries drop by 15 percent, but only one entry is inside the seven-day window and no
  alert is reported. The threshold of the code is a percentage: with \<open>0.10\<close> passed as
  it stands, the history of 10 and 9.6 is reported as a drop.
\<close>

theorem drop_window_counterexample:
  "detect_drop_spec [price_row 10 0, price_row (17 / 2) (days_seconds 30)] 1 (1 / 10) \<and>
   get_price_alerts newest_first [item_1]
     [price_row 10 0, price_row (17 / 2) (days_seconds 30)] (days_seconds 30) 10 = [] \<and>
   \<not> detect_drop_spec [price_row 10 1000, price_row (py_float (48 / 5)) 2000] 1 (1 / 10) \<and>
   get_price_alerts newest_first [item_1]
     [price_row 10 1000, price_row (py_float (48 / 5)) 2000] 3000 (py_float (1 / 10)) \<noteq> []"
  by (simp add: history_eval detect_drop_spec_def)

text \<open>
  The change is the rounded one, and rows with equal timestamps come in the engine's
  order: from 1 to 0.9 the float change is just above -10 percent and nothing is reported;
  of two rows with the same timestamp the engine \<open>newest_first\<close> takes the one inserted
  later as the latest.
\<close>

lemma price_drop_percent_boundary:
  "- 10 < fmul (fdiv (fsub (py_float (9 / 10)) 1) 1) 100 \<and>
   get_price_alerts newest_first [item_1]
     [price_row 1 1000, price_row (py_float (9 / 10)) 2000] 3000 10 = []"
  by (simp add: history_eval)

lemma equal_timestamps_later_row_first:
  "map pa_change_percent
     (get_price_alerts newest_first [item_1] [price_row 10 1000, price_row 8 1000] 3000 10) =
   [- 20]"
  by (simp add: history_eval)

lemma newest_first_orders: "orders_by_scraped_at_desc newest_first"
  by (simp add: orders_by_scraped_at_desc_def newest_first_def)

lemma history_sorted:
  assumes "orders_by_scraped_at_desc order_by"
  shows "sorted (map (\<lambda>r. - r_scraped_at r) (get_price_history order_by records i None d now))"
  using assms by (simp add: get_price_history_def Let_def orders_by_scraped_at_desc_def)

lemma history_mset:
  assumes "orders_by_scraped_at_desc order_by"
  shows "mset (get_price_history order_by records i None d now) =
    mset (filter (\<lambda>r. r_inventory_item_id r = Some i \<and> now - days_seconds d \<le> r_scraped_at r)
            records)"
  using assms by (simp add: get_price_history_def Let_def orders_by_scraped_at_desc_def)

lemma item_price_alerts_item:
  "a \<in> set (item_price_alerts order_by records now t it) \<Longrightarrow> pa_item a = it"
  by (auto simp: item_price_alerts_def Let_def split: list.splits if_splits)

lemma get_price_alerts_of_item:
  assumes "i_is_active item = 1" "item \<in> set inventory"
  shows "{a \<in> set (get_price_alerts order_by inventory records now t). pa_item a = item} =
         set (item_price_alerts order_by records now t item)"
  using assms by (auto simp: get_price_alerts_def dest: item_price_alerts_item)

lemma item_price_alerts_two:
  assumes "get_price_history order_by records (i_id item) None 7 now = latest # previous # rest"
  shows "item_price_alerts order_by records now t item =
     (if 0 < r_price previous \<and>
         fmul (fdiv (fsub (r_price latest) (r_price previous)) (r_price previous)) 100 \<le> - t
      then [\<lparr>pa_item = item, pa_platform = r_platform latest,
             pa_current_price = r_price latest, pa_previous_price = r_price previous,
             pa_change_percent =
               fmul (fdiv (fsub (r_price latest) (r_price previous)) (r_price previous)) 100,
             pa_url = r_product_url latest\<rparr>]
      else [])"
  using assms by (simp add: item_price_alerts_def Let_def)

text \<open>
  C5, amended. For every active inventory item with at least two price records scraped
  within the last seven days, \<open>get_price_alerts\<close> compares the first two of these records
  in the order the database returns them, which is descending by timestamp whatever
  platform produced them, rows with equal timestamps in the engine's order. It reports a
  drop if and only if the previous price is positive and
  \<open>((latest.price - previous.price) / previous.price) * 100\<close>, as float arithmetic
  computes it, is at most minus the threshold, which is given in percent; the alert
  carries that value as \<open>change_percent\<close>. For the history 10, 8.5 and a threshold of 10
  percent a drop of -15 percent is reported; for 10, 9.6 none is.
\<close>

theorem price_drop_detection:
  assumes h: "get_price_history order_by records (i_id item) None 7 now = latest # previous # rest"
    and ord: "orders_by_scraped_at_desc order_by"
    and act: "i_is_active item = 1" and mem: "item \<in> set inventory"
  shows "{a \<in> set (get_price_alerts order_by inventory records now threshold_percent).
            pa_item a = item} =
           (if 0 < r_price previous \<and>
               fmul (fdiv (fsub (r_price latest) (r_price previous)) (r_price previous)) 100
                 \<le> - threshold_percent
            then {\<lparr>pa_item = item, pa_platform = r_platform latest,
                   pa_current_price = r_price latest, pa_previous_price = r_price previous,
                   pa_change_percent =
                     fmul (fdiv (fsub (r_price latest) (r_price previous)) (r_price previous)) 100,
                   pa_url = r_product_url latest\<rparr>}
            else {}) \<and>
         r_scraped_at previous \<le> r_scraped_at latest \<and>
         (\<forall>r \<in> set rest. r_scraped_at r \<le> r_scraped_at previous) \<and>
         mset (latest # previous # rest) =
           mset (filter (\<lambda>r. r_inventory_item_id r = Some (i_id item) \<and>
                             now - days_seconds 7 \<le> r_scraped_at r) records) \<and>
         get_price_alerts newest_first [item_1]
             [price_row 10 1000, price_row (17 / 2) 2000] 3000 10 =
           [\<lparr>pa_item = item_1, pa_platform = ''A'', pa_current_price = 17 / 2,
             pa_previous_price = 10, pa_change_percent = - 15, pa_url = ''https://a/1''\<rparr>] \<and>
         get_price_alerts newest_first [item_1]
             [price_row 10 1000, price_row (py_float (48 / 5)) 2000] 3000 10 = []"
proof (intro conjI)
  show "{a \<in> set (get_price_alerts order_by inventory records now threshold_percent).
            pa_item a = item} =
           (if 0 < r_price previous \<and>
               fmul (fdiv (fsub (r_price latest) (r_price previous)) (r_price previous)) 100
                 \<le> - threshold_percent
            then {\<lparr>pa_item = item, pa_platform = r_platform latest,
                   pa_current_price = r_price latest, pa_previous_price = r_price previous,
                   pa_change_percent =
                     fmul (fdiv (fsub (r_price latest) (r_price previous)) (r_price previous)) 100,
                   pa_url = r_product_url latest\<rparr>}
            else {})"
    unfolding get_price_alerts_of_item [OF act mem] item_price_alerts_two [OF h] by simp
next
  from history_sorted [OF ord, of records "i_id item" 7 now]
  have s: "sorted (map (\<lambda>r. - r_scraped_at r) (latest # previous # rest))"
    unfolding h .
  from s show "r_scraped_at previous \<le> r_scraped_at latest" by simp
  from s show "\<forall>r \<in> set rest. r_scraped_at r \<le> r_scraped_at previous" by simp
next
  from history_mset [OF ord, of records "i_id item" 7 now]
  show "mset (latest # previous # rest) =
           mset (filter (\<lambda>r. r_inventory_item_id r = Some (i_id item) \<and>
                             now - days_seconds 7 \<le> r_scraped_at r) records)"
    unfolding h .
next
  show "get_price_alerts newest_first [item_1]
             [price_row 10 1000, price_row (17 / 2) 2000] 3000 10 =
           [\<lparr>pa_item = item_1, pa_platform = ''A'', pa_current_price = 17 / 2,
             pa_previous_price = 10, pa_change_percent = - 15, pa_url = ''https://a/1''\<rparr>]"
    by (simp add: history_eval)
  show "get_price_alerts newest_first [item_1]
             [price_row 10 1000, price_row (py_float (48 / 5)) 2000] 3000 10 = []"
    by (simp add: history_eval)
qed

theorem price_drop_detection_witness:
  "get_price_history newest_first [price_row 10 1000, price_row 8 2000, price_row 12 500]
     (i_id item_1) None 7 3000 =
     [price_row 8 2000, price_row 10 1000, price_row 12 500] \<and>
   orders_by_scraped_at_desc newest_first \<and>
   {a \<in> set (get_price_alerts newest_first [item_1]
               [price_row 10 1000, price_row 8 2000, price_row 12 500] 3000 10).
      pa_item a = item_1} =
     {\<lparr>pa_item = item_1, pa_platform = ''A'', pa_current_price = 8, pa_previous_price = 10,
       pa_change_percent = - 20, pa_url = ''https://a/1''\<rparr>}"
proof -
  have h: "get_price_history newest_first [price_row 10 1000, price_row 8 2000, price_row 12 500]
      (i_id item_1) None 7 3000 =
     price_row 8 2000 # price_row 10 1000 # [price_row 12 500]"
    by (simp add: history_eval)
  have a: "i_is_active item_1 = 1" by (simp add: item_1_def)
  have m: "item_1 \<in> set [item_1]" by simp
  have c: "fmul (fdiv (fsub 8 10) 10) 100 = - 20" by (simp add: float_eval)
  from price_drop_detection [OF h newest_first_orders a m, of 10]
  have "{a \<in> set (get_price_alerts newest_first [item_1]
               [price_row 10 1000, price_row 8 2000, price_row 12 500] 3000 10).
      pa_item a = item_1} =
     {\<lparr>pa_item = item_1, pa_platform = ''A'', pa_current_price = 8, pa_previous_price = 10,
       pa_change_percent = - 20, pa_url = ''https://a/1''\<rparr>}"
    by (simp add: price_row_def c)
  with h newest_first_orders show ?thesis by simp
qed

section \<open>Weekly recommendations\<close>

lemma py_min_in: "py_min k b xs \<in> set (b # xs)"
  by (induction xs arbitrary: b) auto

lemma py_min_le: "e \<in> set (b # xs) \<Longrightarrow> k (py_min k b xs) \<le> k e"
proof (induction xs arbitrary: b e)
  case Nil
  then show ?case by simp
next
  case (Cons x xs)
  let ?b = "if k x < k b then x else b"
  have step: "k (py_min k ?b xs) \<le> k ?b"
    using Cons.IH [of ?b ?b] by simp
  from Cons.prems consider "e = b" | "e = x" | "e \<in> set xs" by auto
  then show ?case
  proof cases
    case 1 with step show ?thesis by (simp split: if_splits)
  next
    case 2 with step show ?thesis by (simp split: if_splits)
  next
    case 3 then show ?thesis using Cons.IH [of e ?b] by simp
  qed
qed

lemma is_available_anywhere_iff:
  "is_available_anywhere item \<longleftrightarrow> (\<exists>e \<in> set (w_availability_status item). s_in_stock (snd e))"
proof (cases "w_availability_status item = []")
  case True
  then show ?thesis by (simp add: is_available_anywhere_def)
next
  case False
  have "list_ex (\<lambda>(p, s). s_in_stock s) (w_availability_status item) \<longleftrightarrow>
        (\<exists>e \<in> set (w_availability_status item). s_in_stock (snd e))"
    by (simp add: list_ex_iff case_prod_beta)
  with False show ?thesis by (simp add: is_available_anywhere_def)
qed

lemma available_entries_in_stock:
  "e \<in> set (available_entries results) \<Longrightarrow> e \<in> set results \<and> s_in_stock (snd e)"
  by (auto simp: available_entries_def)

lemma get_best_deal_Some:
  assumes "available_entries (w_availability_status item) \<noteq> []"
  shows "\<exists>best. get_best_deal item = Some best \<and>
           best \<in> set (available_entries (w_availability_status item)) \<and>
           (\<forall>e \<in> set (available_entries (w_availability_status item)). price_key best \<le> price_key e)"
proof -
  from assms obtain x xs where a: "available_entries (w_availability_status item) = x # xs"
    by (cases "available_entries (w_availability_status item)") auto
  then have ne: "w_availability_status item \<noteq> []" by (auto simp: available_entries_def)
  have g: "get_best_deal item = Some (py_min price_key x xs)"
    using a ne by (simp add: get_best_deal_def)
  show ?thesis
    unfolding g a using py_min_in [of price_key x xs] py_min_le [of _ x xs price_key] by blast
qed

text \<open>
  C7, amended. For an item with no source in stock there is exactly one recommendation,
  with status \<open>unavailable\<close>. For an item with at least one source in stock at a
  non-zero price there is exactly one recommendation, taken at the cheapest such source:
  \<open>over_budget\<close> with no quantity and no total when \<open>max_price\<close> is set, non-zero and
  below that price, and otherwise \<open>available\<close> with
  \<open>quantity = weekly_target_qty\<close> and \<open>total = price * weekly_target_qty\<close>, the
  float product. When
  every active item is of one of these two kinds, the list holds one recommendation per
  active item, in order.
\<close>

theorem weekly_recommendation:
  "(\<not> (\<exists>e \<in> set (w_availability_status item). s_in_stock (snd e)) \<longrightarrow>
      item_recommendations item =
        [\<lparr>rec_item = item, rec_status = unavailable, rec_quantity = None,
          rec_platform = None, rec_price = None, rec_total = None, rec_url = None,
          rec_best_deal = None\<rparr>]) \<and>
   (available_entries (w_availability_status item) \<noteq> [] \<longrightarrow>
      (\<exists>best \<in> set (available_entries (w_availability_status item)).
         (\<forall>e \<in> set (available_entries (w_availability_status item)). price_key best \<le> price_key e) \<and>
         item_recommendations item =
           [if truthy (w_max_price item) \<and> the (w_max_price item) < price_key best
            then \<lparr>rec_item = item, rec_status = over_budget, rec_quantity = None,
                   rec_platform = None, rec_price = None, rec_total = None, rec_url = None,
                   rec_best_deal = Some best\<rparr>
            else \<lparr>rec_item = item, rec_status = available,
                   rec_quantity = Some (w_weekly_target_qty item),
                   rec_platform = Some (fst best),
                   rec_price = Some (price_key best),
                   rec_total = Some (fmul (price_key best)
                                          (py_float (real_of_int (w_weekly_target_qty item)))),
                   rec_url = s_url (snd best),
                   rec_best_deal = None\<rparr>])) \<and>
   ((\<forall>it \<in> set watchlist. w_is_active it \<longrightarrow>
        \<not> (\<exists>e \<in> set (w_availability_status it). s_in_stock (snd e)) \<or>
        available_entries (w_availability_status it) \<noteq> []) \<longrightarrow>
      map rec_item (get_weekly_shopping_list watchlist) = filter w_is_active watchlist)"
proof (intro conjI impI)
  assume "\<not> (\<exists>e \<in> set (w_availability_status item). s_in_stock (snd e))"
  then show "item_recommendations item =
        [\<lparr>rec_item = item, rec_status = unavailable, rec_quantity = None,
          rec_platform = None, rec_price = None, rec_total = None, rec_url = None,
          rec_best_deal = None\<rparr>]"
    by (simp add: item_recommendations_def is_available_anywhere_iff)
next
  assume ne: "available_entries (w_availability_status item) \<noteq> []"
  from get_best_deal_Some [OF ne] obtain best where
    g: "get_best_deal item = Some best"
    and b: "best \<in> set (available_entries (w_availability_status item))"
    and le: "\<forall>e \<in> set (available_entries (w_availability_status item)). price_key best \<le> price_key e"
    by blast
  from available_entries_in_stock [OF b] have "is_available_anywhere item"
    unfolding is_available_anywhere_iff by blast
  then have "item_recommendations item =
           [if truthy (w_max_price item) \<and> the (w_max_price item) < price_key best
            then \<lparr>rec_item = item, rec_status = over_budget, rec_quantity = None,
                   rec_platform = None, rec_price = None, rec_total = None, rec_url = None,
                   rec_best_deal = Some best\<rparr>
            else \<lparr>rec_item = item, rec_status = available,
                   rec_quantity = Some (w_weekly_target_qty item),
                   rec_platform = Some (fst best),
                   rec_price = Some (price_key best),
                   rec_total = Some (fmul (price_key best)
                                          (py_float (real_of_int (w_weekly_target_qty item)))),
                   rec_url = s_url (snd best),
                   rec_best_deal = None\<rparr>]"
    by (simp add: item_recommendations_def g)
  with b le show "\<exists>best \<in> set (available_entries (w_availability_status item)).
         (\<forall>e \<in> set (available_entries (w_availability_status item)). price_key best \<le> price_key e) \<and>
         item_recommendations item =
           [if truthy (w_max_price item) \<and> the (w_max_price item) < price_key best
            then \<lparr>rec_item = item, rec_status = over_budget, rec_quantity = None,
                   rec_platform = None, rec_price = None, rec_total = None, rec_url = None,
                   rec_best_deal = Some best\<rparr>
            else \<lparr>rec_item = item, rec_status = available,
                   rec_quantity = Some (w_weekly_target_qty item),
                   rec_platform = Some (fst best),
                   rec_price = Some (price_key best),
                   rec_total = Some (fmul (price_key best)
                                          (py_float (real_of_int (w_weekly_target_qty item)))),
                   rec_url = s_url (snd best),
                   rec_best_deal = None\<rparr>]"
    by blast
next
  assume "\<forall>it \<in> set watchlist. w_is_active it \<longrightarrow>
        \<not> (\<exists>e \<in> set (w_availability_status it). s_in_stock (snd e)) \<or>
        available_entries (w_availability_status it) \<noteq> []"
  then show "map rec_item (get_weekly_shopping_list watchlist) = filter w_is_active watchlist"
  proof (induction watchlist)
    case Nil
    then show ?case by (simp add: get_weekly_shopping_list_def)
  next
    case (Cons it watchlist)
    then have ih: "map rec_item (get_weekly_shopping_list watchlist) = filter w_is_active watchlist"
      by simp
    show ?case
    proof (cases "w_is_active it")
      case False
      with ih show ?thesis by (simp add: get_weekly_shopping_list_def)
    next
      case True
      with Cons.prems have c: "\<not> (\<exists>e \<in> set (w_availability_status it). s_in_stock (snd e)) \<or>
        available_entries (w_availability_status it) \<noteq> []" by simp
      have "map rec_item (item_recommendations it) = [it]"
      proof (cases "\<exists>e \<in> set (w_availability_status it). s_in_stock (snd e)")
        case False
        then show ?thesis by (simp add: item_recommendations_def is_available_anywhere_iff)
      next
        case True
        with c have ne: "available_entries (w_availability_status it) \<noteq> []" by simp
        from get_best_deal_Some [OF ne] obtain best where "get_best_deal it = Some best" by blast
        with True show ?thesis
          by (simp add: item_recommendations_def is_available_anywhere_iff)
      qed
      with True ih show ?thesis by (simp add: get_weekly_shopping_list_def)
    qed
  qed
qed

lemmas weekly_eval =
  get_weekly_shopping_list_def item_recommendations_def is_available_anywhere_def
  get_best_deal_def available_entries_def truthy_def price_key_def priced_def unpriced_def
  example_status_def float_eval

text \<open>
  C7, as stated, fails: an active item whose only in-stock source has no price gets no
  recommendation at all, and an item with \<open>max_price = 0.0\<close> and a best price of 12 is
  recommended as available.
\<close>

theorem weekly_recommendation_counterexample:
  "w_is_active unpriced \<and> get_weekly_shopping_list [unpriced] = [] \<and>
   w_max_price (priced (Some 0) 12) = Some 0 \<and>
   map rec_status (get_weekly_shopping_list [priced (Some 0) 12]) = [available]"
  by (simp add: weekly_eval sardines_def)

theorem weekly_recommendation_witness:
  "available_entries (w_availability_status (priced (Some 10) 12)) \<noteq> [] \<and>
   map (\<lambda>r. (rec_status r, rec_quantity r, rec_total r)) (item_recommendations (priced (Some 10) 12)) =
     [(over_budget, None, None)] \<and>
   map (\<lambda>r. (rec_status r, rec_quantity r, rec_total r)) (item_recommendations (priced (Some 15) 12)) =
     [(available, Some 2, Some 24)] \<and>
   map (\<lambda>r. (rec_status r, rec_quantity r, rec_total r))
     (item_recommendations (sardines\<lparr>w_availability_status := [(''A'', example_status False (Some 12))]\<rparr>)) =
     [(unavailable, None, None)]"
proof -
  have ne: "available_entries (w_availability_status (priced (Some 10) 12)) \<noteq> []"
    by (simp add: weekly_eval)
  have ne2: "available_entries (w_availability_status (priced (Some 15) 12)) \<noteq> []"
    by (simp add: weekly_eval)
  have a: "available_entries (w_availability_status (priced (Some 10) 12)) = [(''A'', example_status True (Some 12))]"
    by (simp add: weekly_eval)
  have a2: "available_entries (w_availability_status (priced (Some 15) 12)) = [(''A'', example_status True (Some 12))]"
    by (simp add: weekly_eval)
  have k: "price_key (''A'', example_status True (Some 12)) = 12"
    by (simp add: price_key_def example_status_def)
  have t: "fmul 12 (py_float 2) = 24" by (simp add: float_eval)
  from weekly_recommendation [of "priced (Some 10) 12" "[]"] ne
  have r1: "map (\<lambda>r. (rec_status r, rec_quantity r, rec_total r)) (item_recommendations (priced (Some 10) 12)) =
     [(over_budget, None, None)]"
    unfolding a by (auto simp: k truthy_def priced_def)
  from weekly_recommendation [of "priced (Some 15) 12" "[]"] ne2
  have r2: "map (\<lambda>r. (rec_status r, rec_quantity r, rec_total r)) (item_recommendations (priced (Some 15) 12)) =
     [(available, Some 2, Some 24)]"
    unfolding a2 by (auto simp: k truthy_def priced_def sardines_def t)
  from weekly_recommendation [of "sardines\<lparr>w_availability_status := [(''A'', example_status False (Some 12))]\<rparr>" "[]"]
  have r3: "map (\<lambda>r. (rec_status r, rec_quantity r, rec_total r))
     (item_recommendations (sardines\<lparr>w_availability_status := [(''A'', example_status False (Some 12))]\<rparr>)) =
     [(unavailable, None, None)]"
    by (simp add: example_status_def)
  from ne r1 r2 r3 show ?thesis by simp
qed

end
